theory Spec2Isabelle
  imports Main "HOL-Library.Sublist"
begin

section \<open>The GeoGebra loader (geogebra-loader.js, v1.1) as a state machine\<close>

text \<open>
  The loader is event driven: \<open>loadGeoGebra\<close> runs the executor of a new Promise, installs two
  handlers on a script element, and the handlers install interval timers. The model threads an
  explicit browser state through every function. Closures are represented by the variables they
  capture (the record \<open>call\<close>), DOM elements live in a store addressed by numbers, so that the
  reference \<open>container\<close> held by a handler stays the same object when the document changes.

  Strings are lists of bytes (UTF-8): concatenation and the test for the ASCII suffix
  \<open>.ggb\<close> agree with JavaScript's on such strings. The message and markup templates of the source
  contain non-ASCII text; each template is a constructor that carries the values the template
  interpolates.

  What the model leaves out. The document is flat: the head and the body are lists of
  elements, and the content of an element is data, so that writing \<open>innerHTML\<close> neither
  creates nor destroys elements. The source interpolates the file name and the material id
  into the content without escaping, so the model agrees with the page only when these texts
  carry no markup; the theorem on the elements of the document has this as a hypothesis. The
  arguments have the types of the source's documentation: ids and file names are strings, the
  file name may be missing. The vendor library throws Error objects; the instance it publishes
  is not a thenable; what its code does to the page is not modelled. Events arrive in any
  order and any number; a theorem that needs the browser's discipline (a script element loads
  once) says so in its hypotheses.
\<close>

subsection \<open>JavaScript values\<close>

datatype jsval = JUndefined | JNull | JBool bool | JNum int | JStr string | JObj nat

fun truthy :: "jsval \<Rightarrow> bool" where
  "truthy JUndefined = False"
| "truthy JNull = False"
| "truthy (JBool b) = b"
| "truthy (JNum n) = (n \<noteq> 0)"
| "truthy (JStr s) = (s \<noteq> [])"
| "truthy (JObj a) = True"

subsection \<open>Environment detection and the base path\<close>

record location =
  hostname :: string
  protocol :: string

definition isLiveServer :: "location \<Rightarrow> bool" where
  "isLiveServer loc = (hostname loc = ''localhost'' \<or> hostname loc = ''127.0.0.1'')"

definition isFileProtocol :: "location \<Rightarrow> bool" where
  "isFileProtocol loc = (protocol loc = ''file:'')"

definition basePath :: "location \<Rightarrow> string" where
  "basePath loc =
     (if isLiveServer loc then ''http://'' @ hostname loc @ '':5500/assets/ggb/''
      else (if isFileProtocol loc then ''./assets/ggb/'' else ''/assets/ggb/''))"

text \<open>The formula of the specification, section 6, written from its words.\<close>

definition spec_basePath :: "bool \<Rightarrow> bool \<Rightarrow> string \<Rightarrow> string" where
  "spec_basePath devHost fileProtocol host =
     (if devHost then ''http://'' @ host @ '':5500/assets/ggb/''
      else if fileProtocol then ''./assets/ggb/'' else ''/assets/ggb/'')"

subsection \<open>Parameters, closures, elements\<close>

record ggb_params =
  appName :: string
  width :: int
  height :: int
  showToolBar :: bool
  showAlgebraInput :: bool
  showMenuBar :: bool
  enableRightClick :: bool
  enableShiftDragZoom :: bool
  showResetIcon :: bool
  useBrowserForJS :: bool
  filename :: string

type_synonym addr = nat

text \<open>
  The variables of one \<open>loadGeoGebra\<close> activation that its handlers and timer callbacks read:
  the arguments, the element found for the mount point, the parameter object and the
  \<open>resolve\<close>/\<open>reject\<close> pair (the index of the promise).
\<close>

record call =
  containerId :: string
  ggbFileName :: string
  is3D :: bool
  container :: addr
  params :: ggb_params
  promise :: nat

text \<open>
  What \<open>innerHTML\<close> can hold: \<open>LoadingPanel f\<close> is the spinner template with the file name,
  \<open>DiagnosticPanel f p\<close> the failure panel with the file name and the path
  \<open>basePath + ggbFileName\<close>, \<open>EmbedFrame m w h b\<close> the iframe template of \<open>embedGeoGebra\<close> with
  the material id, the sizes and the border style; \<open>Other\<close> is any other content.
\<close>

datatype markup =
    Other string
  | LoadingPanel string
  | DiagnosticPanel string string
  | EmbedFrame jsval int int string

record element =
  tagName :: string
  eid :: string
  src :: string
  innerHTML :: markup
  onload :: "call option"
  onerror :: "call option"

subsection \<open>Promises, timers, the vendor library, the console\<close>

text \<open>
  The reasons of rejection, one per \<open>reject\<close> of the source: an Error whose message is the
  container-not-found template with the id; an Error with the fixed file-name message; an Error
  whose message is the initialisation-failed template with \<open>error.message\<close>; the event object
  that \<open>script.onerror\<close> received.
\<close>

datatype reason =
    MountNotFound string
  | InvalidResourceName
  | InitializationFailed string
  | ResourceLoadFailed jsval

datatype settled = Pending | Resolved jsval | Rejected reason

datatype callback = CheckInterval call | OnLoaded call

record timer =
  period :: nat
  callback :: callback
  active :: bool

text \<open>
  \<open>window.GGBApplet\<close> belongs to the vendor. A library that is present either constructs and
  injects, or throws an Error with a message from the constructor, or from \<open>inject\<close>.
\<close>

datatype library = Working | CtorThrows string | InjectThrows string

datatype logmsg =
    WarnScriptExists
  | LogScriptLoaded
  | LogAppletLoaded string
  | ErrScriptFailed jsval
  | ErrNoContainer string
  | ErrNoMaterial

text \<open>
  The browser state: the store of element objects and the next free address; the children of
  the head and of the body in document order; the properties of \<open>window\<close> other than the
  library, and the library; the interval timers and the promises, a timer id or a promise being
  an index; the console; the arguments the vendor's constructor and \<open>inject\<close> were called with.
\<close>

record state =
  elems :: "addr \<Rightarrow> element"
  nextAddr :: addr
  headc :: "addr list"
  bodyc :: "addr list"
  window :: "string \<rightharpoonup> jsval"
  GGBApplet :: "library option"
  timers :: "timer list"
  promises :: "settled list"
  console :: "logmsg list"
  constructed :: "ggb_params list"
  injected :: "string list"

subsection \<open>DOM and runtime primitives\<close>

text \<open>\<open>document.getElementById\<close>: the first element in document order, none for the empty id.\<close>

definition getElementById :: "state \<Rightarrow> string \<Rightarrow> addr option" where
  "getElementById s i =
     (if i = [] then None else find (\<lambda>a. eid (elems s a) = i) (headc s @ bodyc s))"

text \<open>
  Writing \<open>innerHTML\<close> stores the content. The elements that the browser builds from the
  content are not part of the document of the model: this is the page when the texts inside
  the content are plain (see \<open>plain_text\<close> below), and not otherwise.
\<close>

definition set_innerHTML :: "addr \<Rightarrow> markup \<Rightarrow> state \<Rightarrow> state" where
  "set_innerHTML a m s = s\<lparr>elems := (elems s)(a := (elems s a)\<lparr>innerHTML := m\<rparr>)\<rparr>"

definition remove_element :: "addr \<Rightarrow> state \<Rightarrow> state" where
  "remove_element a s = s\<lparr>headc := removeAll a (headc s), bodyc := removeAll a (bodyc s)\<rparr>"

definition createElement :: "element \<Rightarrow> state \<Rightarrow> addr \<times> state" where
  "createElement e s = (nextAddr s, s\<lparr>elems := (elems s)(nextAddr s := e), nextAddr := Suc (nextAddr s)\<rparr>)"

definition head_appendChild :: "addr \<Rightarrow> state \<Rightarrow> state" where
  "head_appendChild a s = s\<lparr>headc := removeAll a (headc s) @ [a], bodyc := removeAll a (bodyc s)\<rparr>"

definition console_log :: "logmsg \<Rightarrow> state \<Rightarrow> state" where
  "console_log m s = s\<lparr>console := console s @ [m]\<rparr>"

text \<open>A promise is settled by the first \<open>resolve\<close> or \<open>reject\<close>; later ones do nothing.\<close>

definition settle :: "nat \<Rightarrow> settled \<Rightarrow> state \<Rightarrow> state" where
  "settle p r s =
     (if p < length (promises s) \<and> promises s ! p = Pending
      then s\<lparr>promises := (promises s)[p := r]\<rparr> else s)"

definition resolve :: "nat \<Rightarrow> jsval \<Rightarrow> state \<Rightarrow> state" where
  "resolve p v s = settle p (Resolved v) s"

definition reject :: "nat \<Rightarrow> reason \<Rightarrow> state \<Rightarrow> state" where
  "reject p e s = settle p (Rejected e) s"

definition setInterval :: "callback \<Rightarrow> nat \<Rightarrow> state \<Rightarrow> state" where
  "setInterval cb ms s = s\<lparr>timers := timers s @ [\<lparr>period = ms, callback = cb, active = True\<rparr>]\<rparr>"

definition clearInterval :: "nat \<Rightarrow> state \<Rightarrow> state" where
  "clearInterval t s =
     (if t < length (timers s)
      then s\<lparr>timers := (timers s)[t := (timers s ! t)\<lparr>active := False\<rparr>]\<rparr> else s)"

subsection \<open>loadGeoGebra\<close>

definition endsWith :: "string \<Rightarrow> string \<Rightarrow> bool" where
  "endsWith s suf = (length suf \<le> length s \<and> drop (length s - length suf) s = suf)"

definition mk_params :: "location \<Rightarrow> string \<Rightarrow> bool \<Rightarrow> ggb_params" where
  "mk_params loc f b =
     \<lparr>appName = (if b then ''3d'' else ''classic''),
      width = 800, height = 500,
      showToolBar = True, showAlgebraInput = True, showMenuBar = False,
      enableRightClick = False, enableShiftDragZoom = True, showResetIcon = True,
      useBrowserForJS = True,
      filename = basePath loc @ f\<rparr>"

definition scriptId :: "bool \<Rightarrow> string" where
  "scriptId b = (if b then ''geogebra-3d-script'' else ''geogebra-script'')"

definition scriptSrc :: "bool \<Rightarrow> string" where
  "scriptSrc b =
     (if b then ''https://www.geogebra.org/apps/latest/web3d.nocache.js''
      else ''https://www.geogebra.org/apps/latest/web.nocache.js'')"

text \<open>
  The file-name argument is \<open>None\<close> when the caller passes none (\<open>undefined\<close>). The result is
  the index of the promise returned and the state when \<open>loadGeoGebra\<close> returns.
\<close>

definition loadGeoGebra ::
  "location \<Rightarrow> string \<Rightarrow> string option \<Rightarrow> bool \<Rightarrow> state \<Rightarrow> nat \<times> state" where
  "loadGeoGebra loc cid fopt b s =
     (let p = length (promises s);
          s0 = s\<lparr>promises := promises s @ [Pending]\<rparr>
      in case getElementById s0 cid of
           None \<Rightarrow> (p, reject p (MountNotFound cid) s0)
         | Some c \<Rightarrow>
             (case fopt of
                None \<Rightarrow> (p, reject p InvalidResourceName s0)
              | Some f \<Rightarrow>
                  if f = [] \<or> \<not> endsWith f ''.ggb''
                  then (p, reject p InvalidResourceName s0)
                  else
                    (let s1 = set_innerHTML c (LoadingPanel f) s0;
                         cl = \<lparr>containerId = cid, ggbFileName = f, is3D = b, container = c,
                               params = mk_params loc f b, promise = p\<rparr>;
                         s2 = (case getElementById s1 (scriptId b) of
                                 None \<Rightarrow> s1
                               | Some ex \<Rightarrow> remove_element ex (console_log WarnScriptExists s1));
                         (a, s3) = createElement
                                     \<lparr>tagName = ''script'', eid = scriptId b, src = scriptSrc b,
                                      innerHTML = Other [], onload = Some cl, onerror = Some cl\<rparr> s2
                     in (p, head_appendChild a s3))))"

subsection \<open>The handlers and the timer callbacks\<close>

definition onLoaded_cb :: "nat \<Rightarrow> call \<Rightarrow> state \<Rightarrow> state" where
  "onLoaded_cb t c s =
     (case window s (containerId c @ ''_applet'') of
        None \<Rightarrow> s
      | Some v \<Rightarrow>
          if truthy v
          then resolve (promise c) v
                 (console_log (LogAppletLoaded (ggbFileName c)) (clearInterval t s))
          else s)"

definition checkInterval_cb :: "nat \<Rightarrow> call \<Rightarrow> state \<Rightarrow> state" where
  "checkInterval_cb t c s =
     (case GGBApplet s of
        None \<Rightarrow> s
      | Some lib \<Rightarrow>
          (let s1 = clearInterval t s;
               s2 = s1\<lparr>constructed := constructed s1 @ [params c]\<rparr>
           in case lib of
                CtorThrows m \<Rightarrow> reject (promise c) (InitializationFailed m) s2
              | InjectThrows m \<Rightarrow>
                  reject (promise c) (InitializationFailed m)
                    (s2\<lparr>injected := injected s2 @ [containerId c]\<rparr>)
              | Working \<Rightarrow>
                  setInterval (OnLoaded c) 200 (s2\<lparr>injected := injected s2 @ [containerId c]\<rparr>)))"

definition script_onload :: "call \<Rightarrow> state \<Rightarrow> state" where
  "script_onload c s = setInterval (CheckInterval c) 100 (console_log LogScriptLoaded s)"

definition script_onerror :: "call \<Rightarrow> jsval \<Rightarrow> state \<Rightarrow> state" where
  "script_onerror c ev s =
     reject (promise c) (ResourceLoadFailed ev)
       (set_innerHTML (container c)
          (DiagnosticPanel (ggbFileName c) (filename (params c)))
          (console_log (ErrScriptFailed ev) s))"

subsection \<open>embedGeoGebra\<close>

definition borderStyle :: "bool \<Rightarrow> string" where
  "borderStyle showBorder =
     (if showBorder then ''border: 1px solid #e2e8f0; border-radius: 8px;''
      else ''border: none; border-radius: 8px;'')"

definition embedGeoGebra :: "string \<Rightarrow> jsval \<Rightarrow> int \<Rightarrow> int \<Rightarrow> bool \<Rightarrow> state \<Rightarrow> state" where
  "embedGeoGebra cid materialId w h showBorder s =
     (case getElementById s cid of
        None \<Rightarrow> console_log (ErrNoContainer cid) s
      | Some c \<Rightarrow>
          if \<not> truthy materialId then console_log ErrNoMaterial s
          else set_innerHTML c (EmbedFrame materialId w h (borderStyle showBorder)) s)"

subsection \<open>Events\<close>

text \<open>
  What can happen to a page: the browser reports that a script element loaded or failed, an
  interval timer comes due, vendor code publishes a global or the library, and page code calls
  the two functions of the loader.
\<close>

datatype event =
    ScriptLoad addr
  | ScriptError addr jsval
  | Fire nat
  | SetGlobal string jsval
  | SetLibrary "library option"
  | CallLoad string "string option" bool
  | CallEmbed string jsval int int bool

definition fire :: "nat \<Rightarrow> state \<Rightarrow> state" where
  "fire t s =
     (if t < length (timers s) \<and> active (timers s ! t)
      then (case callback (timers s ! t) of
              CheckInterval c \<Rightarrow> checkInterval_cb t c s
            | OnLoaded c \<Rightarrow> onLoaded_cb t c s)
      else s)"

fun step :: "location \<Rightarrow> event \<Rightarrow> state \<Rightarrow> state" where
  "step loc (ScriptLoad a) s = (case onload (elems s a) of None \<Rightarrow> s | Some c \<Rightarrow> script_onload c s)"
| "step loc (ScriptError a ev) s =
     (case onerror (elems s a) of None \<Rightarrow> s | Some c \<Rightarrow> script_onerror c ev s)"
| "step loc (Fire t) s = fire t s"
| "step loc (SetGlobal k v) s = s\<lparr>window := (window s)(k \<mapsto> v)\<rparr>"
| "step loc (SetLibrary l) s = s\<lparr>GGBApplet := l\<rparr>"
| "step loc (CallLoad cid fopt b) s = snd (loadGeoGebra loc cid fopt b s)"
| "step loc (CallEmbed cid m w h sb) s = embedGeoGebra cid m w h sb s"

fun run :: "location \<Rightarrow> event list \<Rightarrow> state \<Rightarrow> state" where
  "run loc [] s = s"
| "run loc (e # es) s = run loc es (step loc e s)"

subsection \<open>Observations on the timers\<close>

fun closure_of :: "callback \<Rightarrow> call" where
  "closure_of (CheckInterval c) = c"
| "closure_of (OnLoaded c) = c"

text \<open>No interval of the call is still scheduled; the second interval of the call exists.\<close>

definition stopped :: "call \<Rightarrow> state \<Rightarrow> bool" where
  "stopped c s = (\<not> list_ex (\<lambda>x. closure_of (callback x) = c \<and> active x) (timers s))"

definition phaseB_started :: "call \<Rightarrow> state \<Rightarrow> bool" where
  "phaseB_started c s = list_ex (\<lambda>x. callback x = OnLoaded c) (timers s)"

definition phaseA_started :: "call \<Rightarrow> state \<Rightarrow> bool" where
  "phaseA_started c s = list_ex (\<lambda>x. callback x = CheckInterval c) (timers s)"

text \<open>
  What happened during a run of events from a state: the load handler of the call ran; a
  tick of the call's first interval found the library.
\<close>

fun load_fired :: "location \<Rightarrow> call \<Rightarrow> event list \<Rightarrow> state \<Rightarrow> bool" where
  "load_fired loc c [] s = False"
| "load_fired loc c (e # es) s =
     ((case e of ScriptLoad a \<Rightarrow> onload (elems s a) = Some c | _ \<Rightarrow> False) \<or>
      load_fired loc c es (step loc e s))"

fun phaseA_succeeded :: "location \<Rightarrow> call \<Rightarrow> event list \<Rightarrow> state \<Rightarrow> bool" where
  "phaseA_succeeded loc c [] s = False"
| "phaseA_succeeded loc c (e # es) s =
     ((case e of
         Fire t \<Rightarrow> t < length (timers s) \<and> active (timers s ! t) \<and>
                   callback (timers s ! t) = CheckInterval c \<and> GGBApplet s \<noteq> None
       | _ \<Rightarrow> False) \<or>
      phaseA_succeeded loc c es (step loc e s))"

fun is_ScriptLoad :: "event \<Rightarrow> bool" where
  "is_ScriptLoad (ScriptLoad a) = True"
| "is_ScriptLoad e = False"

subsection \<open>A mock scheduler\<close>

text \<open>
  The schedule of the specification's test: the script \<open>a\<close> loads; the first interval \<open>t\<close>
  ticks \<open>N\<close> times and the library appears just before its \<open>N\<close>-th tick; the second interval
  (created next, hence \<open>Suc t\<close>) ticks \<open>M\<close> times and the instance is published under \<open>key\<close>
  just before its \<open>M\<close>-th tick. \<open>ticks\<close> counts the timer callbacks of a schedule.
\<close>

definition mock_schedule :: "addr \<Rightarrow> nat \<Rightarrow> string \<Rightarrow> jsval \<Rightarrow> nat \<Rightarrow> nat \<Rightarrow> event list" where
  "mock_schedule a t key inst N M =
     ScriptLoad a # replicate (N - 1) (Fire t) @ [SetLibrary (Some Working), Fire t]
       @ replicate (M - 1) (Fire (Suc t)) @ [SetGlobal key inst, Fire (Suc t)]"

fun is_Fire :: "event \<Rightarrow> bool" where
  "is_Fire (Fire t) = True"
| "is_Fire e = False"

definition ticks :: "event list \<Rightarrow> nat" where
  "ticks es = length (filter is_Fire es)"

subsection \<open>Observations on the document\<close>

text \<open>
  The elements of the document that carry an id, their number, and the condition that every
  element of the document has been allocated (a new element is a new object).
\<close>

definition elements_with_id :: "string \<Rightarrow> state \<Rightarrow> addr list" where
  "elements_with_id i s = filter (\<lambda>a. eid (elems s a) = i) (headc s @ bodyc s)"

definition count_id :: "string \<Rightarrow> state \<Rightarrow> nat" where
  "count_id i s = length (elements_with_id i s)"

definition allocated :: "state \<Rightarrow> bool" where
  "allocated s = list_all (\<lambda>a. a < nextAddr s) (headc s @ bodyc s)"

text \<open>
  Texts that the parser of HTML turns into text only, so that content built from them adds
  no element to the document. Where the template puts the text between tags, a text without
  \<open><\<close> opens no tag; where it puts the text inside a double-quoted attribute (the material
  id in the address of the iframe), the text must not close the attribute either. A value is
  written as its string; what an object prints is not known. An event is plain when the text
  it brings is, a page when the file names held by its error handlers are.
\<close>

definition plain_text :: "string \<Rightarrow> bool" where
  "plain_text t = (CHR ''<'' \<notin> set t)"

definition plain_attr :: "string \<Rightarrow> bool" where
  "plain_attr t = (CHR ''<'' \<notin> set t \<and> CHR 0x22 \<notin> set t)"

fun plain_value :: "jsval \<Rightarrow> bool" where
  "plain_value (JStr t) = plain_attr t"
| "plain_value (JObj a) = False"
| "plain_value v = True"

fun plain_event :: "event \<Rightarrow> bool" where
  "plain_event (CallLoad cid fopt b) = (case fopt of None \<Rightarrow> True | Some f \<Rightarrow> plain_text f)"
| "plain_event (CallEmbed cid m w h sb) = plain_value m"
| "plain_event e = True"

definition plain_page :: "state \<Rightarrow> bool" where
  "plain_page s =
     (\<forall>a < nextAddr s. case onerror (elems s a) of None \<Rightarrow> True
                                               | Some c \<Rightarrow> plain_text (ggbFileName c))"

subsection \<open>A concrete page\<close>

definition blank :: element where
  "blank = \<lparr>tagName = [], eid = [], src = [], innerHTML = Other [], onload = None, onerror = None\<rparr>"

definition page0 :: state where
  "page0 =
     \<lparr>elems = (\<lambda>_. blank)(0 := blank\<lparr>tagName := ''div'', eid := ''box''\<rparr>),
      nextAddr = 1, headc = [], bodyc = [0], window = Map.empty, GGBApplet = None,
      timers = [], promises = [], console = [], constructed = [], injected = []\<rparr>"

definition devloc :: location where
  "devloc = \<lparr>hostname = ''localhost'', protocol = ''http:''\<rparr>"

text \<open>
  A page on which two elements carry the script id of the 2D key: a script element in the
  head, as an earlier call of the loader leaves it, and a script element in the body, as
  authored there or as a file name that carries such a tag leaves it inside a mount point.
\<close>

definition page_dup :: state where
  "page_dup =
     \<lparr>elems = (\<lambda>_. blank)
        (0 := blank\<lparr>tagName := ''div'', eid := ''box''\<rparr>,
         1 := blank\<lparr>tagName := ''script'', eid := ''geogebra-script''\<rparr>,
         2 := blank\<lparr>tagName := ''script'', eid := ''geogebra-script''\<rparr>),
      nextAddr = 3, headc = [1], bodyc = [0, 2], window = Map.empty, GGBApplet = None,
      timers = [], promises = [], console = [], constructed = [], injected = []\<rparr>"

text \<open>The closure of the first call on that page, and the page after the call and the load event.\<close>

definition call1 :: call where
  "call1 = \<lparr>containerId = ''box'', ggbFileName = ''a.ggb'', is3D = False, container = 0,
            params = mk_params devloc ''a.ggb'' False, promise = 0\<rparr>"

definition page1 :: state where
  "page1 = run devloc [ScriptLoad 1] (snd (loadGeoGebra devloc ''box'' (Some ''a.ggb'') False page0))"

section \<open>Basic facts\<close>

lemma getElementById_promises [simp]:
  "getElementById (s\<lparr>promises := ps\<rparr>) i = getElementById s i"
  by (simp add: getElementById_def)

text \<open>The suffix test written out above is the library's \<open>suffix\<close>.\<close>

lemma endsWith_suffix: "endsWith s suf = suffix suf s"
proof
  assume "endsWith s suf"
  then have "s = take (length s - length suf) s @ suf"
    by (metis append_take_drop_id endsWith_def)
  then show "suffix suf s" by (metis suffixI)
next
  assume "suffix suf s"
  then show "endsWith s suf" by (auto simp: endsWith_def suffix_def)
qed

lemma loadGeoGebra_fst [simp]: "fst (loadGeoGebra loc cid fopt b s) = length (promises s)"
  by (simp add: loadGeoGebra_def Let_def createElement_def split: option.splits)

lemma page0_box: "getElementById page0 ''box'' = Some 0"
  by (simp add: getElementById_def page0_def blank_def)

lemma page0_nowhere: "getElementById page0 ''nowhere'' = None"
  by (simp add: getElementById_def page0_def blank_def)

lemma ggb_ok: "endsWith ''a.ggb'' ''.ggb''"
  by (simp add: endsWith_def)

lemma endsWith_nonempty: "endsWith f ''.ggb'' \<Longrightarrow> f \<noteq> []"
  by (auto simp: endsWith_def)

lemmas prim_defs = set_innerHTML_def remove_element_def createElement_def head_appendChild_def
  console_log_def setInterval_def clearInterval_def

lemmas eval_defs = loadGeoGebra_def getElementById_def page0_def blank_def devloc_def Let_def
  endsWith_def scriptId_def scriptSrc_def mk_params_def basePath_def isLiveServer_def
  isFileProtocol_def reject_def resolve_def settle_def prim_defs script_onload_def
  script_onerror_def fire_def checkInterval_cb_def onLoaded_cb_def embedGeoGebra_def
  borderStyle_def

text \<open>The state that a call passing both checks returns, field by field.\<close>

lemma loadGeoGebra_valid:
  fixes loc b
  assumes "getElementById s cid = Some c" and "endsWith f ''.ggb''"
  defines "r \<equiv> snd (loadGeoGebra loc cid (Some f) b s)"
  shows "promises r = promises s @ [Pending]"
    and "timers r = timers s"
    and "window r = window s"
    and "GGBApplet r = GGBApplet s"
    and "constructed r = constructed s"
    and "injected r = injected s"
    and "nextAddr r = Suc (nextAddr s)"
    and "elems r (nextAddr s) =
           \<lparr>tagName = ''script'', eid = scriptId b, src = scriptSrc b, innerHTML = Other [],
            onload = Some \<lparr>containerId = cid, ggbFileName = f, is3D = b, container = c,
                           params = mk_params loc f b, promise = length (promises s)\<rparr>,
            onerror = Some \<lparr>containerId = cid, ggbFileName = f, is3D = b, container = c,
                            params = mk_params loc f b, promise = length (promises s)\<rparr>\<rparr>"
  using assms(1) endsWith_nonempty [OF assms(2)] assms(2)
  unfolding r_def
  by (simp_all add: loadGeoGebra_def Let_def createElement_def head_appendChild_def
      set_innerHTML_def remove_element_def console_log_def split: option.splits)

subsection \<open>Promises only grow, and a settled promise stays as it is\<close>

lemma loadGeoGebra_promises:
  "\<exists>x. promises (snd (loadGeoGebra loc cid fopt b s)) = promises s @ [x]"
  by (auto simp: loadGeoGebra_def Let_def reject_def settle_def prim_defs split: option.splits)

lemma step_promises_length: "length (promises s) \<le> length (promises (step loc e s))"
proof (cases e)
  case (CallLoad cid fopt b)
  then show ?thesis using loadGeoGebra_promises [of loc cid fopt b s] by auto
qed (auto simp: script_onload_def script_onerror_def fire_def checkInterval_cb_def
      onLoaded_cb_def embedGeoGebra_def reject_def resolve_def settle_def prim_defs Let_def
      split: option.splits callback.splits library.splits)

lemma step_settled:
  assumes "p < length (promises s)" and "promises s ! p \<noteq> Pending"
  shows "promises (step loc e s) ! p = promises s ! p"
proof (cases e)
  case (CallLoad cid fopt b)
  then show ?thesis using loadGeoGebra_promises [of loc cid fopt b s] assms
    by (auto simp: nth_append)
qed (use assms in \<open>auto simp: script_onload_def script_onerror_def fire_def checkInterval_cb_def
      onLoaded_cb_def embedGeoGebra_def reject_def resolve_def settle_def prim_defs Let_def
      nth_list_update split: option.splits callback.splits library.splits\<close>)

lemma run_append: "run loc (es @ es') s = run loc es' (run loc es s)"
  by (induction es arbitrary: s) auto

lemma run_promises_length: "length (promises s) \<le> length (promises (run loc es s))"
proof (induction es arbitrary: s)
  case (Cons e es)
  show ?case using Cons [of "step loc e s"] step_promises_length [of s loc e] by simp
qed simp

lemma run_settled:
  "p < length (promises s) \<Longrightarrow> promises s ! p \<noteq> Pending \<Longrightarrow>
   p < length (promises (run loc es s)) \<and> promises (run loc es s) ! p = promises s ! p"
proof (induction es arbitrary: s)
  case Nil
  then show ?case by simp
next
  case (Cons e es)
  have l: "p < length (promises (step loc e s))"
    using Cons.prems(1) step_promises_length [of s loc e] by linarith
  have k: "promises (step loc e s) ! p = promises s ! p"
    using Cons.prems by (rule step_settled)
  show ?case using Cons.IH [OF l] k Cons.prems(2) by simp
qed

subsection \<open>Polling while the library is absent\<close>

lemma fire_absent:
  "GGBApplet s = None \<Longrightarrow> t < length (timers s) \<Longrightarrow>
   callback (timers s ! t) = CheckInterval c \<Longrightarrow> fire t s = s"
  by (simp add: fire_def checkInterval_cb_def)

lemma run_fire_absent:
  "GGBApplet s = None \<Longrightarrow> t < length (timers s) \<Longrightarrow>
   callback (timers s ! t) = CheckInterval c \<Longrightarrow> run loc (replicate n (Fire t)) s = s"
  by (induction n) (simp_all add: fire_absent)

subsection \<open>Timers\<close>

lemma loadGeoGebra_timers [simp]: "timers (snd (loadGeoGebra loc cid fopt b s)) = timers s"
  by (auto simp: loadGeoGebra_def Let_def reject_def settle_def prim_defs split: option.splits)

lemma settle_timers [simp]: "timers (settle p r s) = timers s"
  by (simp add: settle_def)

text \<open>What an event other than a script's load event does to the timers.\<close>

lemma step_timers:
  assumes "\<not> is_ScriptLoad e"
  shows "timers (step loc e s) = timers s \<or>
         (\<exists>t c. e = Fire t \<and> t < length (timers s) \<and> active (timers s ! t) \<and>
            closure_of (callback (timers s ! t)) = c \<and>
            (timers (step loc e s) = (timers s)[t := (timers s ! t)\<lparr>active := False\<rparr>] \<or>
             timers (step loc e s) = (timers s)[t := (timers s ! t)\<lparr>active := False\<rparr>]
                @ [\<lparr>period = 200, callback = OnLoaded c, active = True\<rparr>]))"
proof (cases e)
  case (Fire t)
  show ?thesis
    unfolding Fire
    by (auto simp: fire_def checkInterval_cb_def onLoaded_cb_def reject_def resolve_def
        prim_defs Let_def split: option.splits callback.splits library.splits)
qed (use assms in \<open>auto simp: script_onerror_def embedGeoGebra_def reject_def prim_defs
       split: option.splits\<close>)

lemma stopped_update:
  "stopped c s \<Longrightarrow> timers s' = (timers s)[t := (timers s ! t)\<lparr>active := False\<rparr>] \<Longrightarrow> stopped c s'"
  by (auto simp: stopped_def list_ex_iff dest!: set_update_subset_insert [THEN subsetD])

lemma phaseB_update:
  "\<not> phaseB_started c s \<Longrightarrow> t < length (timers s) \<Longrightarrow>
   timers s' = (timers s)[t := (timers s ! t)\<lparr>active := False\<rparr>] \<Longrightarrow> \<not> phaseB_started c s'"
  by (auto simp: phaseB_started_def list_ex_iff dest!: set_update_subset_insert [THEN subsetD])

lemma step_stopped:
  assumes "\<not> (case e of ScriptLoad a \<Rightarrow> onload (elems s a) = Some c | _ \<Rightarrow> False)"
    and "stopped c s" and "\<not> phaseB_started c s"
  shows "stopped c (step loc e s) \<and> \<not> phaseB_started c (step loc e s)"
proof (cases "is_ScriptLoad e")
  case True
  then obtain a where e: "e = ScriptLoad a" by (cases e) auto
  show ?thesis
  proof (cases "onload (elems s a)")
    case None
    then show ?thesis using e assms(2,3) by simp
  next
    case (Some c')
    then have "c' \<noteq> c" using assms(1) e by simp
    then show ?thesis using e Some assms(2,3)
      by (simp add: script_onload_def setInterval_def console_log_def stopped_def
          phaseB_started_def)
  qed
next
  case False
  from step_timers [OF False, of loc s]
  consider (same) "timers (step loc e s) = timers s"
    | (clear) t where "t < length (timers s)"
        "timers (step loc e s) = (timers s)[t := (timers s ! t)\<lparr>active := False\<rparr>]"
    | (spawn) t where "t < length (timers s)" "active (timers s ! t)"
        "timers (step loc e s) = (timers s)[t := (timers s ! t)\<lparr>active := False\<rparr>]
                @ [\<lparr>period = 200, callback = OnLoaded (closure_of (callback (timers s ! t))),
                    active = True\<rparr>]"
    by blast
  then show ?thesis
  proof cases
    case same
    then show ?thesis using assms(2,3) by (simp add: stopped_def phaseB_started_def)
  next
    case clear
    then show ?thesis using assms(2,3) stopped_update phaseB_update by blast
  next
    case spawn
    have ne: "closure_of (callback (timers s ! t)) \<noteq> c"
      using assms(2) spawn(1,2) by (auto simp: stopped_def list_ex_length)
    let ?m = "s\<lparr>timers := (timers s)[t := (timers s ! t)\<lparr>active := False\<rparr>]\<rparr>"
    have "stopped c ?m" "\<not> phaseB_started c ?m"
      using assms(2,3) spawn(1) stopped_update [of c s ?m t] phaseB_update [of c s t ?m]
      by simp_all
    then show ?thesis using ne spawn(3)
      by (auto simp: stopped_def phaseB_started_def)
  qed
qed

lemma run_stopped:
  "\<not> load_fired loc c es s \<Longrightarrow> stopped c s \<Longrightarrow> \<not> phaseB_started c s \<Longrightarrow>
   stopped c (run loc es s) \<and> \<not> phaseB_started c (run loc es s)"
proof (induction es arbitrary: s)
  case Nil
  then show ?case by simp
next
  case (Cons e es)
  from Cons.prems have "stopped c (step loc e s) \<and> \<not> phaseB_started c (step loc e s)"
    using step_stopped [where e=e and s=s and c=c and loc=loc] by simp
  with Cons show ?case by simp
qed

text \<open>Timers are never removed and keep their callback.\<close>

lemma step_callbacks:
  "length (timers s) \<le> length (timers (step loc e s)) \<and>
   (\<forall>j < length (timers s). callback (timers (step loc e s) ! j) = callback (timers s ! j))"
  by (cases e)
    (auto simp: script_onload_def script_onerror_def fire_def checkInterval_cb_def
      onLoaded_cb_def embedGeoGebra_def reject_def resolve_def settle_def prim_defs Let_def
      nth_append nth_list_update
      split: option.splits callback.splits library.splits)

lemma run_callbacks:
  "j < length (timers s) \<Longrightarrow>
   j < length (timers (run loc es s)) \<and> callback (timers (run loc es s) ! j) = callback (timers s ! j)"
proof (induction es arbitrary: s)
  case Nil
  then show ?case by simp
next
  case (Cons e es)
  have "j < length (timers (step loc e s))"
    "callback (timers (step loc e s) ! j) = callback (timers s ! j)"
    using Cons.prems step_callbacks [of s loc e] by auto
  then show ?case using Cons.IH [of "step loc e s"] by simp
qed

text \<open>Where a new timer comes from.\<close>

lemma step_spawn:
  assumes "length (timers s) \<le> j" and "j < length (timers (step loc e s))"
  shows "(callback (timers (step loc e s) ! j) = OnLoaded c \<longrightarrow>
            (\<exists>t. e = Fire t \<and> t < length (timers s) \<and> active (timers s ! t) \<and>
                 callback (timers s ! t) = CheckInterval c \<and> GGBApplet s \<noteq> None)) \<and>
         (callback (timers (step loc e s) ! j) = CheckInterval c \<longrightarrow>
            (\<exists>a. e = ScriptLoad a \<and> onload (elems s a) = Some c))"
  using assms
  by (cases e)
    (auto simp: script_onload_def script_onerror_def fire_def checkInterval_cb_def
      onLoaded_cb_def embedGeoGebra_def reject_def resolve_def settle_def prim_defs Let_def
      nth_append nth_list_update
      split: option.splits callback.splits library.splits if_splits)

lemma run_spawn:
  "length (timers s) \<le> j \<Longrightarrow> j < length (timers (run loc es s)) \<Longrightarrow>
   (callback (timers (run loc es s) ! j) = OnLoaded c \<longrightarrow> phaseA_succeeded loc c es s) \<and>
   (callback (timers (run loc es s) ! j) = CheckInterval c \<longrightarrow> load_fired loc c es s)"
proof (induction es arbitrary: s)
  case Nil
  then show ?case by simp
next
  case (Cons e es)
  show ?case
  proof (cases "j < length (timers (step loc e s))")
    case True
    note k = run_callbacks [OF True, of loc es]
    from step_spawn [OF Cons.prems(1) True, of c] k show ?thesis
      by auto
  next
    case False
    then have "length (timers (step loc e s)) \<le> j" by simp
    from Cons.IH [OF this] Cons.prems(2) show ?thesis by simp
  qed
qed

lemma started_index:
  "list_ex (\<lambda>x. callback x = cb) (timers s') \<Longrightarrow> \<not> list_ex (\<lambda>x. callback x = cb) (timers s) \<Longrightarrow>
   s' = run loc es s \<Longrightarrow>
   \<exists>j. length (timers s) \<le> j \<and> j < length (timers s') \<and> callback (timers s' ! j) = cb"
proof -
  assume a: "list_ex (\<lambda>x. callback x = cb) (timers s')"
    and n: "\<not> list_ex (\<lambda>x. callback x = cb) (timers s)" and r: "s' = run loc es s"
  from a obtain j where j: "j < length (timers s')" "callback (timers s' ! j) = cb"
    by (auto simp: list_ex_length)
  have "length (timers s) \<le> j"
  proof (rule ccontr)
    assume "\<not> length (timers s) \<le> j"
    then have l: "j < length (timers s)" by simp
    then have "callback (timers s ! j) = cb"
      using run_callbacks [OF l, of loc es] j(2) r by simp
    with n l show False by (auto simp: list_ex_length)
  qed
  with j show ?thesis by blast
qed

lemma order_B: "\<not> phaseB_started c s \<Longrightarrow> phaseB_started c (run loc es s) \<Longrightarrow> phaseA_succeeded loc c es s"
  unfolding phaseB_started_def
  using started_index [of "OnLoaded c" "run loc es s" s loc es] run_spawn [of s _ loc es c]
  by blast

lemma order_A: "\<not> phaseA_started c s \<Longrightarrow> phaseA_started c (run loc es s) \<Longrightarrow> load_fired loc c es s"
  unfolding phaseA_started_def
  using started_index [of "CheckInterval c" "run loc es s" s loc es] run_spawn [of s _ loc es c]
  by blast

subsection \<open>The mock schedule\<close>

lemma fire_waiting:
  "t < length (timers s) \<Longrightarrow> callback (timers s ! t) = OnLoaded c \<Longrightarrow>
   (\<forall>v. window s (containerId c @ ''_applet'') = Some v \<longrightarrow> \<not> truthy v) \<Longrightarrow> fire t s = s"
  by (auto simp: fire_def onLoaded_cb_def split: option.splits)

lemma run_fire_waiting:
  "t < length (timers s) \<Longrightarrow> callback (timers s ! t) = OnLoaded c \<Longrightarrow>
   (\<forall>v. window s (containerId c @ ''_applet'') = Some v \<longrightarrow> \<not> truthy v) \<Longrightarrow>
   run loc (replicate n (Fire t)) s = s"
  by (induction n) (simp_all add: fire_waiting)

lemma take_snoc_less: "k < length (xs @ [x]) \<Longrightarrow> take k (xs @ [x]) = take k xs"
  by simp

lemma pending_prefix:
  assumes "promises (run loc es s) ! p = Pending" and "p < length (promises s)"
  shows "promises (run loc (take k es) s) ! p = Pending"
proof (rule ccontr)
  assume n: "promises (run loc (take k es) s) ! p \<noteq> Pending"
  have l: "p < length (promises (run loc (take k es) s))"
    using assms(2) run_promises_length [of s loc "take k es"] by linarith
  have "run loc es s = run loc (drop k es) (run loc (take k es) s)"
    using run_append [of loc "take k es" "drop k es" s] by simp
  then have "promises (run loc es s) ! p = promises (run loc (take k es) s) ! p"
    using run_settled [OF l n, of loc "drop k es"] by simp
  with n assms(1) show False by simp
qed

lemma mock_resolves:
  fixes loc b N M
  assumes v: "getElementById s cid = Some c" "endsWith f ''.ggb''"
    and lib: "GGBApplet s = None"
    and win: "\<forall>v. window s (cid @ ''_applet'') = Some v \<longrightarrow> \<not> truthy v"
    and inst: "truthy inst"
  defines "s0 \<equiv> snd (loadGeoGebra loc cid (Some f) b s)"
    and "pre \<equiv> ScriptLoad (nextAddr s) # replicate (N - 1) (Fire (length (timers s)))
                 @ [SetLibrary (Some Working), Fire (length (timers s))]
                 @ replicate (M - 1) (Fire (Suc (length (timers s))))
                 @ [SetGlobal (cid @ ''_applet'') inst]"
  shows "promises (run loc pre s0) ! length (promises s) = Pending"
    and "promises (run loc (pre @ [Fire (Suc (length (timers s)))]) s0) ! length (promises s)
           = Resolved inst"
proof -
  let ?t = "length (timers s)"
  let ?cl = "\<lparr>containerId = cid, ggbFileName = f, is3D = b, container = c,
              params = mk_params loc f b, promise = length (promises s)\<rparr>"
  note val = loadGeoGebra_valid [OF v, where loc=loc and b=b, folded s0_def]
  define s1 where "s1 = step loc (ScriptLoad (nextAddr s)) s0"
  have s1: "GGBApplet s1 = None" "promises s1 = promises s @ [Pending]"
    "timers s1 = timers s @ [\<lparr>period = 100, callback = CheckInterval ?cl, active = True\<rparr>]"
    "window s1 = window s"
    using lib by (simp_all add: s1_def val script_onload_def setInterval_def console_log_def)
  have r1: "run loc (replicate (N - 1) (Fire ?t)) s1 = s1"
    by (rule run_fire_absent [where c = ?cl]) (simp_all add: s1)
  define s3 where "s3 = fire ?t (s1\<lparr>GGBApplet := Some Working\<rparr>)"
  have s3: "promises s3 = promises s @ [Pending]"
    "timers s3 = timers s @ [\<lparr>period = 100, callback = CheckInterval ?cl, active = False\<rparr>,
                             \<lparr>period = 200, callback = OnLoaded ?cl, active = True\<rparr>]"
    "window s3 = window s"
    by (simp_all add: s3_def fire_def s1 checkInterval_cb_def clearInterval_def
        setInterval_def Let_def)
  have r3: "run loc (replicate (M - 1) (Fire (Suc ?t))) s3 = s3"
    by (rule run_fire_waiting [where c = ?cl]) (simp_all add: s3 win nth_append)
  define s4 where "s4 = s3\<lparr>window := (window s3)(cid @ ''_applet'' \<mapsto> inst)\<rparr>"
  have "run loc pre s0 = run loc (replicate (N - 1) (Fire ?t) @ [SetLibrary (Some Working), Fire ?t]
                 @ replicate (M - 1) (Fire (Suc ?t)) @ [SetGlobal (cid @ ''_applet'') inst]) s1"
    unfolding pre_def s1_def by simp
  also have "\<dots> = run loc ([SetLibrary (Some Working), Fire ?t]
                 @ replicate (M - 1) (Fire (Suc ?t)) @ [SetGlobal (cid @ ''_applet'') inst]) s1"
    unfolding run_append [of loc "replicate (N - 1) (Fire ?t)"] r1 ..
  also have "\<dots> = run loc (replicate (M - 1) (Fire (Suc ?t)) @ [SetGlobal (cid @ ''_applet'') inst]) s3"
    unfolding s3_def by simp
  also have "\<dots> = run loc [SetGlobal (cid @ ''_applet'') inst] s3"
    unfolding run_append [of loc "replicate (M - 1) (Fire (Suc ?t))"] r3 ..
  also have "\<dots> = s4"
    unfolding s4_def by simp
  finally have pre: "run loc pre s0 = s4" .
  have s4: "promises s4 = promises s @ [Pending]"
    "timers s4 = timers s3" "window s4 (cid @ ''_applet'') = Some inst"
    by (simp_all add: s4_def s3)
  show "promises (run loc pre s0) ! length (promises s) = Pending"
    unfolding pre by (simp add: s4)
  show "promises (run loc (pre @ [Fire (Suc ?t)]) s0) ! length (promises s) = Resolved inst"
    unfolding run_append pre using inst
    by (simp add: fire_def s4 s3 nth_append onLoaded_cb_def resolve_def settle_def
        clearInterval_def console_log_def)
qed

subsection \<open>The document\<close>

lemma filter_removeAll_le: "length (filter P (removeAll x xs)) \<le> length (filter P xs)"
  by (induction xs) auto

lemma filter_removeAll_less:
  "P x \<Longrightarrow> x \<in> set xs \<Longrightarrow> length (filter P (removeAll x xs)) < length (filter P xs)"
proof (induction xs)
  case (Cons y ys)
  then show ?case
    using filter_removeAll_le [of P x ys] by (auto simp: less_Suc_eq_le)
qed simp

lemma filter_removeAll_other: "\<not> P x \<Longrightarrow> filter P (removeAll x xs) = filter P xs"
  by (induction xs) auto

lemma find_SomeD: "find P xs = Some x \<Longrightarrow> P x \<and> x \<in> set xs"
  by (induction xs) (auto split: if_splits)

lemma getElementById_Some:
  "getElementById s i = Some a \<Longrightarrow> eid (elems s a) = i \<and> a \<in> set (headc s @ bodyc s)"
  unfolding getElementById_def by (auto dest: find_SomeD split: if_splits)

lemma getElementById_None:
  "getElementById s i = None \<Longrightarrow> i \<noteq> [] \<Longrightarrow> count_id i s = 0"
  by (auto simp: getElementById_def count_id_def elements_with_id_def find_None_iff filter_empty_conv)

text \<open>The document after a call that passes both checks.\<close>

lemma loadGeoGebra_document:
  fixes loc b
  assumes "getElementById s cid = Some c" and "endsWith f ''.ggb''" and "allocated s"
  defines "r \<equiv> snd (loadGeoGebra loc cid (Some f) b s)"
  shows "headc r = (case getElementById s (scriptId b) of None \<Rightarrow> headc s
                    | Some ex \<Rightarrow> removeAll ex (headc s)) @ [nextAddr s]"
    and "bodyc r = (case getElementById s (scriptId b) of None \<Rightarrow> bodyc s
                    | Some ex \<Rightarrow> removeAll ex (bodyc s))"
    and "eid (elems r x) = (if x = nextAddr s then scriptId b else eid (elems s x))"
    and "nextAddr r = Suc (nextAddr s)"
proof -
  have ne: "f \<noteq> []" using assms(2) by (rule endsWith_nonempty)
  have fresh: "nextAddr s \<notin> set (headc s)" "nextAddr s \<notin> set (bodyc s)"
    using assms(3) by (auto simp: allocated_def list_all_iff)
  have g: "getElementById (set_innerHTML c (LoadingPanel f) (s\<lparr>promises := promises s @ [Pending]\<rparr>)) i
             = getElementById s i" for i
  proof -
    have "(\<lambda>x. eid (if x = c then (elems s c)\<lparr>innerHTML := LoadingPanel f\<rparr> else elems s x) = i)
        = (\<lambda>x. eid (elems s x) = i)"
      by (rule ext) simp
    then show ?thesis
      by (simp add: getElementById_def set_innerHTML_def fun_upd_def)
  qed
  show "headc r = (case getElementById s (scriptId b) of None \<Rightarrow> headc s
                    | Some ex \<Rightarrow> removeAll ex (headc s)) @ [nextAddr s]"
    unfolding r_def using assms(1) ne assms(2) fresh
    by (simp add: loadGeoGebra_def Let_def g createElement_def head_appendChild_def
        remove_element_def console_log_def split: option.splits)
      (simp add: set_innerHTML_def)
  show "bodyc r = (case getElementById s (scriptId b) of None \<Rightarrow> bodyc s
                    | Some ex \<Rightarrow> removeAll ex (bodyc s))"
    unfolding r_def using assms(1) ne assms(2) fresh
    by (simp add: loadGeoGebra_def Let_def g createElement_def head_appendChild_def
        remove_element_def console_log_def split: option.splits)
      (simp add: set_innerHTML_def)
  show "eid (elems r x) = (if x = nextAddr s then scriptId b else eid (elems s x))"
    unfolding r_def using assms(1) ne assms(2)
    by (simp add: loadGeoGebra_def Let_def g createElement_def head_appendChild_def
        remove_element_def console_log_def split: option.splits)
      (simp add: set_innerHTML_def)
  show "nextAddr r = Suc (nextAddr s)"
    unfolding r_def using loadGeoGebra_valid(7) [OF assms(1,2)] .
qed


lemma filter_allocated:
  assumes "list_all (\<lambda>a. a < (n::nat)) xs" and "\<forall>x. x \<noteq> n \<longrightarrow> Q x = P x"
  shows "filter Q xs = filter P xs"
proof (rule filter_cong [OF refl])
  fix x
  assume "x \<in> set xs"
  then have "x \<noteq> n" using assms(1) by (auto simp: list_all_iff)
  then show "Q x = P x" using assms(2) by simp
qed

lemma list_all_removeAll: "list_all P xs \<Longrightarrow> list_all P (removeAll x xs)"
  by (induction xs) auto

lemma scriptId_nonempty: "scriptId b \<noteq> []"
  by (simp add: scriptId_def)

lemma loadGeoGebra_count:
  fixes loc b
  assumes "getElementById s cid = Some c" and "endsWith f ''.ggb''" and "allocated s"
  defines "r \<equiv> snd (loadGeoGebra loc cid (Some f) b s)"
  shows "allocated r"
    and "i \<noteq> scriptId b \<Longrightarrow> count_id i r = count_id i s"
    and "count_id (scriptId b) s \<le> 1 \<Longrightarrow> count_id (scriptId b) r = 1"
proof -
  note d = loadGeoGebra_document [OF assms(1-3), where loc=loc and b=b, folded r_def]
  let ?n = "nextAddr s"
  let ?H = "case getElementById s (scriptId b) of None \<Rightarrow> headc s | Some ex \<Rightarrow> removeAll ex (headc s)"
  let ?B = "case getElementById s (scriptId b) of None \<Rightarrow> bodyc s | Some ex \<Rightarrow> removeAll ex (bodyc s)"
  have al: "list_all (\<lambda>a. a < ?n) ?H" "list_all (\<lambda>a. a < ?n) ?B"
    using assms(3) by (auto simp: allocated_def list_all_removeAll split: option.splits)
  show "allocated r"
    using al by (auto simp: allocated_def d list_all_iff)
  have same: "\<forall>x. x \<noteq> ?n \<longrightarrow> (eid (elems r x) = j) = (eid (elems s x) = j)" for j
    by (simp add: d)
  have c: "count_id j r = length (filter (\<lambda>a. eid (elems s a) = j) ?H)
             + (if j = scriptId b then 1 else 0)
             + length (filter (\<lambda>a. eid (elems s a) = j) ?B)" for j
  proof -
    have n: "(eid (elems r ?n) = j) = (j = scriptId b)"
      by (auto simp: d(3))
    show ?thesis
      unfolding count_id_def elements_with_id_def d(1,2) filter_append
        filter_allocated [OF al(1) same [of j]] filter_allocated [OF al(2) same [of j]]
      by (simp add: n)
  qed
  show "count_id i r = count_id i s" if "i \<noteq> scriptId b"
  proof (cases "getElementById s (scriptId b)")
    case None
    show ?thesis unfolding c using that None by (simp add: count_id_def elements_with_id_def)
  next
    case (Some ex)
    then have "\<not> eid (elems s ex) = i"
      using that getElementById_Some by blast
    then show ?thesis unfolding c using that Some
      by (simp add: count_id_def elements_with_id_def filter_removeAll_other)
  qed
  show "count_id (scriptId b) r = 1" if "count_id (scriptId b) s \<le> 1"
  proof (cases "getElementById s (scriptId b)")
    case None
    then have "count_id (scriptId b) s = 0"
      using scriptId_nonempty getElementById_None by blast
    then show ?thesis unfolding c using None by (simp add: count_id_def elements_with_id_def)
  next
    case (Some ex)
    then have "eid (elems s ex) = scriptId b" "ex \<in> set (headc s @ bodyc s)"
      using getElementById_Some by blast+
    then have "length (filter (\<lambda>a. eid (elems s a) = scriptId b) (removeAll ex (headc s @ bodyc s)))
                 < count_id (scriptId b) s"
      unfolding count_id_def elements_with_id_def by (intro filter_removeAll_less) simp_all
    with that have "length (filter (\<lambda>a. eid (elems s a) = scriptId b) (removeAll ex (headc s @ bodyc s))) = 0"
      by linarith
    then show ?thesis unfolding c using Some by simp
  qed
qed

text \<open>Every other event leaves the document and the ids of its elements as they are.\<close>

lemma step_document:
  "(headc (step loc e s) = headc s \<and> bodyc (step loc e s) = bodyc s \<and>
    nextAddr (step loc e s) = nextAddr s \<and> (\<forall>x. eid (elems (step loc e s) x) = eid (elems s x))) \<or>
   (\<exists>cid c f b. e = CallLoad cid (Some f) b \<and> getElementById s cid = Some c \<and> endsWith f ''.ggb'')"
proof (cases e)
  case (CallLoad cid fopt b)
  show ?thesis
  proof (cases "\<exists>c f. getElementById s cid = Some c \<and> fopt = Some f \<and> endsWith f ''.ggb''")
    case True
    then show ?thesis using CallLoad by auto
  next
    case False
    then have "snd (loadGeoGebra loc cid fopt b s) = reject (length (promises s))
                 (case getElementById s cid of None \<Rightarrow> MountNotFound cid | Some c \<Rightarrow> InvalidResourceName)
                 (s\<lparr>promises := promises s @ [Pending]\<rparr>)"
      by (auto simp: loadGeoGebra_def Let_def split: option.splits)
    then show ?thesis using CallLoad by (simp add: reject_def settle_def)
  qed
qed (auto simp: script_onload_def script_onerror_def fire_def checkInterval_cb_def
      onLoaded_cb_def embedGeoGebra_def reject_def resolve_def settle_def prim_defs Let_def
      split: option.splits callback.splits library.splits)

lemma step_count:
  assumes "allocated s" and "count_id (scriptId b) s \<le> 1"
  shows "allocated (step loc e s) \<and> count_id (scriptId b) (step loc e s) \<le> 1 \<and>
         (count_id (scriptId b) s = 1 \<longrightarrow> count_id (scriptId b) (step loc e s) = 1)"
  using step_document [of loc e s]
proof
  assume "headc (step loc e s) = headc s \<and> bodyc (step loc e s) = bodyc s \<and>
    nextAddr (step loc e s) = nextAddr s \<and> (\<forall>x. eid (elems (step loc e s) x) = eid (elems s x))"
  then show ?thesis using assms by (simp add: allocated_def count_id_def elements_with_id_def)
next
  assume "\<exists>cid c f b. e = CallLoad cid (Some f) b \<and> getElementById s cid = Some c \<and> endsWith f ''.ggb''"
  then obtain cid c f b' where e: "e = CallLoad cid (Some f) b'"
    and v: "getElementById s cid = Some c" "endsWith f ''.ggb''"
    by blast
  note k = loadGeoGebra_count [OF v assms(1), where loc=loc and b=b']
  show ?thesis
  proof (cases "scriptId b = scriptId b'")
    case True
    then show ?thesis using k(1) k(3) assms(2) e by simp
  next
    case False
    then show ?thesis using k(1) k(2) [OF False] assms(2) e by simp
  qed
qed

lemma run_count:
  "allocated s \<Longrightarrow> count_id (scriptId b) s \<le> 1 \<Longrightarrow>
   allocated (run loc es s) \<and> count_id (scriptId b) (run loc es s) \<le> 1 \<and>
   (count_id (scriptId b) s = 1 \<longrightarrow> count_id (scriptId b) (run loc es s) = 1)"
proof (induction es arbitrary: s)
  case Nil
  then show ?case by simp
next
  case (Cons e es)
  note st = step_count [OF Cons.prems, where loc=loc and e=e]
  from st Cons.IH [of "step loc e s"] show ?case by simp
qed


lemma loadGeoGebra_only:
  fixes loc b
  assumes "getElementById s cid = Some c" and "endsWith f ''.ggb''" and "allocated s"
    and "count_id (scriptId b) s \<le> 1"
  shows "elements_with_id (scriptId b) (snd (loadGeoGebra loc cid (Some f) b s)) = [nextAddr s]"
proof -
  let ?r = "snd (loadGeoGebra loc cid (Some f) b s)"
  note d = loadGeoGebra_document [OF assms(1-3), where loc=loc and b=b]
  have "length (elements_with_id (scriptId b) ?r) = 1"
    using loadGeoGebra_count(3) [OF assms(1-3), where loc=loc and b=b] assms(4)
    by (simp add: count_id_def elements_with_id_def)
  moreover have "nextAddr s \<in> set (elements_with_id (scriptId b) ?r)"
    by (simp add: elements_with_id_def d)
  ultimately show ?thesis
    by (cases "elements_with_id (scriptId b) ?r") auto
qed

lemma succeeded_after_load:
  "phaseA_succeeded loc c es s \<Longrightarrow> \<not> phaseA_started c s \<Longrightarrow> load_fired loc c es s"
proof (induction es arbitrary: s)
  case Nil
  then show ?case by simp
next
  case (Cons e es)
  have nofire: "\<not> (case e of Fire t \<Rightarrow> t < length (timers s) \<and> active (timers s ! t) \<and>
                   callback (timers s ! t) = CheckInterval c \<and> GGBApplet s \<noteq> None
                 | _ \<Rightarrow> False)"
    using Cons.prems(2) by (auto simp: phaseA_started_def list_ex_length split: event.splits)
  with Cons.prems(1) have rest: "phaseA_succeeded loc c es (step loc e s)" by simp
  show ?case
  proof (cases "phaseA_started c (step loc e s)")
    case True
    then have "load_fired loc c [e] s"
      using order_A [OF Cons.prems(2), of loc "[e]"] by simp
    then show ?thesis by simp
  next
    case False
    from Cons.IH [OF rest False] show ?thesis by simp
  qed
qed

subsection \<open>The page after the first call and its load event\<close>

lemma page1_eq:
  "page1 = \<lparr>elems = (\<lambda>_. blank)
              (0 := blank\<lparr>tagName := ''div'', eid := ''box'', innerHTML := LoadingPanel ''a.ggb''\<rparr>,
               1 := \<lparr>tagName = ''script'', eid = ''geogebra-script'',
                     src = ''https://www.geogebra.org/apps/latest/web.nocache.js'',
                     innerHTML = Other [], onload = Some call1, onerror = Some call1\<rparr>),
            nextAddr = 2, headc = [1], bodyc = [0], window = Map.empty, GGBApplet = None,
            timers = [\<lparr>period = 100, callback = CheckInterval call1, active = True\<rparr>],
            promises = [Pending], console = [LogScriptLoaded], constructed = [], injected = []\<rparr>"
  by (simp add: page1_def call1_def eval_defs fun_upd_twist)


section \<open>Validation\<close>

text \<open>
  C5. When no element has the id of the mount point, \<open>loadGeoGebra\<close> returns with its promise
  already rejected with the mount-not-found error, and nothing else in the browser state has
  changed: no element was created, none was appended to the document, no content was written,
  no timer was started.
\<close>

theorem mount_absent_rejects:
  "getElementById s cid = None \<Longrightarrow>
   loadGeoGebra loc cid fopt b s =
     (length (promises s), s\<lparr>promises := promises s @ [Rejected (MountNotFound cid)]\<rparr>)"
  by (simp add: loadGeoGebra_def Let_def reject_def settle_def)

theorem mount_absent_rejects_witness:
  "getElementById page0 ''nowhere'' = None \<and>
   loadGeoGebra devloc ''nowhere'' (Some ''a.ggb'') False page0 =
     (0, page0\<lparr>promises := [Rejected (MountNotFound ''nowhere'')]\<rparr>)"
proof -
  have h: "getElementById page0 ''nowhere'' = None"
    by (rule page0_nowhere)
  show ?thesis
    using h mount_absent_rejects [OF h, of devloc "Some ''a.ggb''" False]
    by (simp add: page0_def)
qed

text \<open>
  C6. When the mount point exists and the file name is missing or does not end in \<open>.ggb\<close>,
  \<open>loadGeoGebra\<close> returns with its promise rejected with the invalid-name error and the rest
  of the browser state as it was: no script element was created or appended, so no request
  was made.
\<close>

theorem invalid_name_rejects:
  "getElementById s cid = Some c \<Longrightarrow>
   fopt = None \<or> (\<exists>f. fopt = Some f \<and> \<not> endsWith f ''.ggb'') \<Longrightarrow>
   loadGeoGebra loc cid fopt b s =
     (length (promises s), s\<lparr>promises := promises s @ [Rejected InvalidResourceName]\<rparr>)"
  by (auto simp: loadGeoGebra_def Let_def reject_def settle_def)

theorem invalid_name_rejects_witness:
  "getElementById page0 ''box'' = Some 0 \<and> \<not> endsWith ''notAGgbFile.txt'' ''.ggb'' \<and>
   loadGeoGebra devloc ''box'' (Some ''notAGgbFile.txt'') False page0 =
     (0, page0\<lparr>promises := [Rejected InvalidResourceName]\<rparr>)"
proof -
  have h: "getElementById page0 ''box'' = Some 0"
    by (rule page0_box)
  have n: "\<not> endsWith ''notAGgbFile.txt'' ''.ggb''"
    by (simp add: endsWith_def)
  show ?thesis
    using h n invalid_name_rejects [OF h, of "Some ''notAGgbFile.txt''" devloc False]
    by (simp add: page0_def)
qed

text \<open>
  C9. The mount point is checked before the file name: with the mount point absent the
  promise is rejected with the mount-not-found error whatever the file name is, and a
  rejection with the invalid-name error only comes from a call whose mount point exists.
\<close>

theorem mount_check_first:
  "(getElementById s cid = None \<longrightarrow>
      promises (snd (loadGeoGebra loc cid fopt b s)) ! fst (loadGeoGebra loc cid fopt b s)
        = Rejected (MountNotFound cid)) \<and>
   (promises (snd (loadGeoGebra loc cid fopt b s)) ! fst (loadGeoGebra loc cid fopt b s)
        = Rejected InvalidResourceName \<longrightarrow> getElementById s cid \<noteq> None)"
proof (cases "getElementById s cid")
  case None
  then show ?thesis
    by (simp add: loadGeoGebra_def Let_def reject_def settle_def nth_append)
next
  case (Some c)
  then show ?thesis by simp
qed

theorem mount_check_first_witness:
  "promises (snd (loadGeoGebra devloc ''nowhere'' (Some ''notes.txt'') True page0)) ! 0
     = Rejected (MountNotFound ''nowhere'') \<and>
   promises (snd (loadGeoGebra devloc ''box'' None True page0)) ! 0
     = Rejected InvalidResourceName \<and>
   getElementById page0 ''box'' \<noteq> None"
proof -
  have a: "getElementById page0 ''nowhere'' = None"
    by (rule page0_nowhere)
  have b: "getElementById page0 ''box'' = Some 0"
    by (rule page0_box)
  have l: "loadGeoGebra devloc ''box'' None True page0
             = (0, page0\<lparr>promises := [Rejected InvalidResourceName]\<rparr>)"
    by (simp add: loadGeoGebra_def Let_def reject_def settle_def page0_def
        getElementById_def blank_def)
  have f: "fst (loadGeoGebra devloc ''nowhere'' (Some ''notes.txt'') True page0) = 0"
    by (simp add: loadGeoGebra_fst page0_def)
  show ?thesis
    using mount_check_first [of page0 "''nowhere''" devloc "Some ''notes.txt''" True]
      mount_check_first [of page0 "''box''" devloc None True] a b l f
    by simp
qed

section \<open>Settlement of the promise\<close>

text \<open>
  C1, as the code has it. The promise of a call is settled at most once: once it is resolved
  or rejected after some events, no further events (handlers, timers, vendor code, later calls
  of the loader) change it. It need not be settled at all: after a call that passes both
  checks, the script's load event followed by any number of polling ticks leaves the promise
  pending as long as the library global is absent.
\<close>

theorem settled_at_most_once:
  "(promises (run loc es (snd (loadGeoGebra loc cid fopt b s))) ! length (promises s) \<noteq> Pending \<longrightarrow>
      promises (run loc (es @ es') (snd (loadGeoGebra loc cid fopt b s))) ! length (promises s)
        = promises (run loc es (snd (loadGeoGebra loc cid fopt b s))) ! length (promises s)) \<and>
   (getElementById s cid = Some c \<and> fopt = Some f \<and> endsWith f ''.ggb'' \<and> GGBApplet s = None \<longrightarrow>
      promises (run loc (ScriptLoad (nextAddr s) # replicate n (Fire (length (timers s))))
                  (snd (loadGeoGebra loc cid fopt b s))) ! length (promises s) = Pending)"
proof (intro conjI impI)
  let ?s0 = "snd (loadGeoGebra loc cid fopt b s)"
  assume a: "promises (run loc es ?s0) ! length (promises s) \<noteq> Pending"
  have "length (promises s) < length (promises ?s0)"
    using loadGeoGebra_promises [of loc cid fopt b s] by auto
  then have l: "length (promises s) < length (promises (run loc es ?s0))"
    using run_promises_length [of ?s0 loc es] by linarith
  show "promises (run loc (es @ es') ?s0) ! length (promises s)
          = promises (run loc es ?s0) ! length (promises s)"
    using run_settled [OF l a, of loc es'] by (simp add: run_append)
next
  let ?s0 = "snd (loadGeoGebra loc cid fopt b s)"
  assume h: "getElementById s cid = Some c \<and> fopt = Some f \<and> endsWith f ''.ggb'' \<and> GGBApplet s = None"
  note v = loadGeoGebra_valid [of s cid c f loc b]
  let ?s1 = "step loc (ScriptLoad (nextAddr s)) ?s0"
  have g: "GGBApplet ?s1 = None" and p: "promises ?s1 = promises s @ [Pending]"
    and t: "length (timers s) < length (timers ?s1)"
    and c: "\<exists>cl. callback (timers ?s1 ! length (timers s)) = CheckInterval cl"
    using h by (simp_all add: v script_onload_def setInterval_def console_log_def)
  from c obtain cl where cl: "callback (timers ?s1 ! length (timers s)) = CheckInterval cl" ..
  have "run loc (replicate n (Fire (length (timers s)))) ?s1 = ?s1"
    using g t cl by (rule run_fire_absent)
  then show "promises (run loc (ScriptLoad (nextAddr s) # replicate n (Fire (length (timers s)))) ?s0)
              ! length (promises s) = Pending"
    using p by simp
qed

theorem settled_at_most_once_witness:
  "promises (run devloc [] (snd (loadGeoGebra devloc ''box'' (Some ''a.txt'') False page0))) ! 0
      = Rejected InvalidResourceName \<and>
   promises (run devloc ([] @ [ScriptError 0 JNull, Fire 0, CallLoad ''box'' (Some ''a.ggb'') False])
      (snd (loadGeoGebra devloc ''box'' (Some ''a.txt'') False page0))) ! 0
      = Rejected InvalidResourceName \<and>
   promises (run devloc (ScriptLoad 1 # replicate 5 (Fire 0))
      (snd (loadGeoGebra devloc ''box'' (Some ''a.ggb'') False page0))) ! 0 = Pending"
proof -
  have a: "promises (run devloc [] (snd (loadGeoGebra devloc ''box'' (Some ''a.txt'') False page0))) ! 0
      = Rejected InvalidResourceName"
    by (simp add: eval_defs)
  have n: "length (promises page0) = 0" "nextAddr page0 = 1" "length (timers page0) = 0"
    "GGBApplet page0 = None"
    by (simp_all add: page0_def)
  show ?thesis
    using a n page0_box ggb_ok
      settled_at_most_once [of devloc "[]" "''box''" "Some ''a.txt''" False page0
        "[ScriptError 0 JNull, Fire 0, CallLoad ''box'' (Some ''a.ggb'') False]" 0 "''a.txt''" 0]
      settled_at_most_once [of devloc "[]" "''box''" "Some ''a.ggb''" False page0 "[]" 0 "''a.ggb''" 5]
    by simp
qed

text \<open>
  The claim as stated asks that a resolution or a rejection occurs for every call. On the
  page with a mount point \<open>box\<close>, a call with a proper file name, the load event and three
  polling ticks with no library: the promise is still pending.
\<close>

theorem never_settles_counterexample:
  "promises (run devloc [ScriptLoad 1, Fire 0, Fire 0, Fire 0]
      (snd (loadGeoGebra devloc ''box'' (Some ''a.ggb'') False page0))) ! 0 = Pending"
  by (simp add: eval_defs)

section \<open>The document passed to the library\<close>

text \<open>
  C8. After a call that passes both checks, the load event and the first polling tick that
  finds the library, the parameter object handed to the constructor has as \<open>filename\<close> the
  base path of the specification's three-way formula followed by the file name, where the
  development host is \<open>localhost\<close> or \<open>127.0.0.1\<close> and the file protocol is \<open>file:\<close>.
\<close>

theorem source_url:
  assumes "getElementById s cid = Some c" and "endsWith f ''.ggb''"
  shows "\<exists>p. constructed (run loc [ScriptLoad (nextAddr s), SetLibrary (Some lib),
                                    Fire (length (timers s))]
                 (snd (loadGeoGebra loc cid (Some f) b s))) = constructed s @ [p] \<and>
             filename p =
               spec_basePath (hostname loc = ''localhost'' \<or> hostname loc = ''127.0.0.1'')
                 (protocol loc = ''file:'') (hostname loc) @ f"
proof -
  let ?r = "snd (loadGeoGebra loc cid (Some f) b s)"
  note v = loadGeoGebra_valid [OF assms, of loc b]
  have "constructed (run loc [ScriptLoad (nextAddr s), SetLibrary (Some lib),
                              Fire (length (timers s))] ?r)
          = constructed s @ [mk_params loc f b]"
    by (cases lib)
      (simp_all add: v script_onload_def setInterval_def console_log_def fire_def
        checkInterval_cb_def clearInterval_def reject_def settle_def Let_def)
  moreover have "filename (mk_params loc f b) =
      spec_basePath (hostname loc = ''localhost'' \<or> hostname loc = ''127.0.0.1'')
                 (protocol loc = ''file:'') (hostname loc) @ f"
    by (simp add: mk_params_def basePath_def spec_basePath_def isLiveServer_def isFileProtocol_def)
  ultimately show ?thesis by blast
qed

theorem source_url_witness:
  "getElementById page0 ''box'' = Some 0 \<and> endsWith ''a.ggb'' ''.ggb'' \<and>
   (\<exists>p. constructed (run devloc [ScriptLoad 1, SetLibrary (Some Working), Fire 0]
            (snd (loadGeoGebra devloc ''box'' (Some ''a.ggb'') False page0))) = [p] \<and>
        filename p = ''http://localhost:5500/assets/ggb/a.ggb'') \<and>
   (\<exists>p. constructed (run \<lparr>hostname = [], protocol = ''file:''\<rparr>
            [ScriptLoad 1, SetLibrary (Some Working), Fire 0]
            (snd (loadGeoGebra \<lparr>hostname = [], protocol = ''file:''\<rparr>
                    ''box'' (Some ''a.ggb'') False page0))) = [p] \<and>
        filename p = ''./assets/ggb/a.ggb'') \<and>
   (\<exists>p. constructed (run \<lparr>hostname = ''example.org'', protocol = ''https:''\<rparr>
            [ScriptLoad 1, SetLibrary (Some Working), Fire 0]
            (snd (loadGeoGebra \<lparr>hostname = ''example.org'', protocol = ''https:''\<rparr>
                    ''box'' (Some ''a.ggb'') False page0))) = [p] \<and>
        filename p = ''/assets/ggb/a.ggb'')"
proof -
  have n: "nextAddr page0 = 1" "length (timers page0) = 0" "constructed page0 = []"
    by (simp_all add: page0_def)
  show ?thesis
    using n page0_box ggb_ok
      source_url [OF page0_box ggb_ok, of devloc Working False]
      source_url [OF page0_box ggb_ok, of "\<lparr>hostname = [], protocol = ''file:''\<rparr>" Working False]
      source_url [OF page0_box ggb_ok,
        of "\<lparr>hostname = ''example.org'', protocol = ''https:''\<rparr>" Working False]
    by (simp add: spec_basePath_def devloc_def)
qed

section \<open>embedGeoGebra\<close>

text \<open>
  C10. With no element of the given id, or with a falsy material id, \<open>embedGeoGebra\<close> returns
  the state it was given except for one message on the console: no content is written and no
  element is created. With the element present and a truthy material id, the only change is
  that the element's content is the iframe template.
\<close>

theorem embed_effects:
  "(getElementById s cid = None \<or> \<not> truthy m \<longrightarrow>
      embedGeoGebra cid m w h sb s =
        s\<lparr>console := console s @
             [if getElementById s cid = None then ErrNoContainer cid else ErrNoMaterial]\<rparr>) \<and>
   (\<forall>c. getElementById s cid = Some c \<and> truthy m \<longrightarrow>
      embedGeoGebra cid m w h sb s =
        s\<lparr>elems := (elems s)
             (c := (elems s c)\<lparr>innerHTML := EmbedFrame m w h (borderStyle sb)\<rparr>)\<rparr>)"
  by (auto simp: embedGeoGebra_def console_log_def set_innerHTML_def split: option.splits)

theorem embed_effects_witness:
  "embedGeoGebra ''nowhere'' (JStr ''m7'') 800 500 True page0
     = page0\<lparr>console := [ErrNoContainer ''nowhere'']\<rparr> \<and>
   embedGeoGebra ''box'' (JStr []) 800 500 True page0 = page0\<lparr>console := [ErrNoMaterial]\<rparr> \<and>
   embedGeoGebra ''box'' (JStr ''m7'') 800 500 False page0
     = page0\<lparr>elems := (elems page0)
          (0 := (elems page0 0)\<lparr>innerHTML :=
                  EmbedFrame (JStr ''m7'') 800 500 ''border: none; border-radius: 8px;''\<rparr>)\<rparr>"
proof -
  have c: "console page0 = []" by (simp add: page0_def)
  show ?thesis
    using c page0_nowhere page0_box
      embed_effects [of page0 "''nowhere''" "JStr ''m7''" 800 500 True]
      embed_effects [of page0 "''box''" "JStr []" 800 500 True]
      embed_effects [of page0 "''box''" "JStr ''m7''" 800 500 False]
    by (simp add: borderStyle_def)
qed

section \<open>Errors\<close>

text \<open>
  C3, as the code has it. Each of the four errors rejects the promise of the call: the two
  checks reject it before the call returns, the script's error handler and a throwing library
  reject it when it is still pending. The diagnostic panel is written by the script's error
  handler only, to the element the call found for the mount point, in the same handler as the
  rejection. A call rejected by one of the two checks leaves every element as it was.
\<close>

theorem errors_reject:
  "(getElementById s cid = None \<longrightarrow>
      loadGeoGebra loc cid fopt b s =
        (length (promises s), s\<lparr>promises := promises s @ [Rejected (MountNotFound cid)]\<rparr>)) \<and>
   (getElementById s cid \<noteq> None \<and> (fopt = None \<or> (\<exists>f. fopt = Some f \<and> \<not> endsWith f ''.ggb'')) \<longrightarrow>
      loadGeoGebra loc cid fopt b s =
        (length (promises s), s\<lparr>promises := promises s @ [Rejected InvalidResourceName]\<rparr>)) \<and>
   (onerror (elems s a) = Some cl \<and> promise cl < length (promises s) \<and>
    promises s ! promise cl = Pending \<longrightarrow>
      promises (step loc (ScriptError a ev) s) ! promise cl = Rejected (ResourceLoadFailed ev) \<and>
      innerHTML (elems (step loc (ScriptError a ev) s) (container cl))
        = DiagnosticPanel (ggbFileName cl) (filename (params cl))) \<and>
   (t < length (timers s) \<and> active (timers s ! t) \<and> callback (timers s ! t) = CheckInterval cl \<and>
    (GGBApplet s = Some (CtorThrows m) \<or> GGBApplet s = Some (InjectThrows m)) \<and>
    promise cl < length (promises s) \<and> promises s ! promise cl = Pending \<longrightarrow>
      promises (step loc (Fire t) s) ! promise cl = Rejected (InitializationFailed m))"
proof (intro conjI impI)
  assume "getElementById s cid = None"
  then show "loadGeoGebra loc cid fopt b s =
        (length (promises s), s\<lparr>promises := promises s @ [Rejected (MountNotFound cid)]\<rparr>)"
    by (simp add: loadGeoGebra_def Let_def reject_def settle_def)
next
  assume "getElementById s cid \<noteq> None \<and> (fopt = None \<or> (\<exists>f. fopt = Some f \<and> \<not> endsWith f ''.ggb''))"
  then show "loadGeoGebra loc cid fopt b s =
        (length (promises s), s\<lparr>promises := promises s @ [Rejected InvalidResourceName]\<rparr>)"
    by (auto simp: loadGeoGebra_def Let_def reject_def settle_def)
next
  assume h: "onerror (elems s a) = Some cl \<and> promise cl < length (promises s) \<and>
    promises s ! promise cl = Pending"
  then show "promises (step loc (ScriptError a ev) s) ! promise cl = Rejected (ResourceLoadFailed ev)"
    by (simp add: script_onerror_def reject_def settle_def prim_defs)
  from h show "innerHTML (elems (step loc (ScriptError a ev) s) (container cl))
        = DiagnosticPanel (ggbFileName cl) (filename (params cl))"
    by (simp add: script_onerror_def reject_def settle_def prim_defs)
next
  assume h: "t < length (timers s) \<and> active (timers s ! t) \<and> callback (timers s ! t) = CheckInterval cl \<and>
    (GGBApplet s = Some (CtorThrows m) \<or> GGBApplet s = Some (InjectThrows m)) \<and>
    promise cl < length (promises s) \<and> promises s ! promise cl = Pending"
  then show "promises (step loc (Fire t) s) ! promise cl = Rejected (InitializationFailed m)"
    by (auto simp: fire_def checkInterval_cb_def reject_def settle_def prim_defs Let_def)
qed

theorem errors_reject_witness:
  "loadGeoGebra devloc ''nowhere'' None False page0
     = (0, page0\<lparr>promises := [Rejected (MountNotFound ''nowhere'')]\<rparr>) \<and>
   loadGeoGebra devloc ''box'' (Some ''a.txt'') False page0
     = (0, page0\<lparr>promises := [Rejected InvalidResourceName]\<rparr>) \<and>
   promises (step devloc (ScriptError 1 (JObj 3)) page1) ! 0 = Rejected (ResourceLoadFailed (JObj 3)) \<and>
   innerHTML (elems (step devloc (ScriptError 1 (JObj 3)) page1) 0)
     = DiagnosticPanel ''a.ggb'' ''http://localhost:5500/assets/ggb/a.ggb'' \<and>
   promises (step devloc (Fire 0) (page1\<lparr>GGBApplet := Some (CtorThrows ''boom'')\<rparr>)) ! 0
     = Rejected (InitializationFailed ''boom'')"
proof -
  let ?s = "page1\<lparr>GGBApplet := Some (CtorThrows ''boom'')\<rparr>"
  have n: "\<not> endsWith ''a.txt'' ''.ggb''" by (simp add: endsWith_def)
  have p0: "promises page0 = []" by (simp add: page0_def)
  have c: "promise call1 = 0" "container call1 = 0" "ggbFileName call1 = ''a.ggb''"
    "filename (params call1) = ''http://localhost:5500/assets/ggb/a.ggb''"
    by (simp_all add: call1_def mk_params_def basePath_def isLiveServer_def devloc_def)
  have e: "onerror (elems page1 1) = Some call1" "promise call1 < length (promises page1)"
    "promises page1 ! promise call1 = Pending"
    by (simp_all add: page1_eq) (simp_all add: call1_def)
  have f: "0 < length (timers ?s)" "active (timers ?s ! 0)"
    "callback (timers ?s ! 0) = CheckInterval call1" "GGBApplet ?s = Some (CtorThrows ''boom'')"
    "promise call1 < length (promises ?s)" "promises ?s ! promise call1 = Pending"
    by (simp_all add: page1_eq) (simp_all add: call1_def)
  show ?thesis
    using page0_nowhere page0_box n p0 c e f
      errors_reject [of page0 "''nowhere''" devloc None False 0 call1 JNull 0 "[]"]
      errors_reject [of page0 "''box''" devloc "Some ''a.txt''" False 0 call1 JNull 0 "[]"]
      errors_reject [of page1 "''box''" devloc None False 1 call1 "JObj 3" 0 "[]"]
      errors_reject [of ?s "''box''" devloc None False 1 call1 "JObj 3" 0 "''boom''"]
    by simp
qed

text \<open>
  The claim as stated asks for the panel on every error. A call with the file name
  \<open>notAGgbFile.txt\<close> on the page with the mount point \<open>box\<close> is rejected and the mount
  point's content is what it was, not the panel.
\<close>

theorem panel_only_on_load_error_counterexample:
  "promises (snd (loadGeoGebra devloc ''box'' (Some ''notAGgbFile.txt'') False page0)) ! 0
     = Rejected InvalidResourceName \<and>
   innerHTML (elems (snd (loadGeoGebra devloc ''box'' (Some ''notAGgbFile.txt'') False page0)) 0)
     = Other []"
  by (simp add: eval_defs)

section \<open>A library that throws\<close>

text \<open>
  C7. A tick of the first interval finds a library whose constructor or \<open>inject\<close> throws an
  Error with message \<open>m\<close>, the promise being pending and that interval being the only one
  of the call still scheduled. Then the promise is rejected with the initialisation error
  carrying \<open>m\<close>, and after any further events during which the load handler of the call
  does not run again (a script element loads once) it is still so, no interval of the call is
  scheduled and the second interval of the call does not exist.
\<close>

theorem init_failure:
  assumes "t < length (timers s)" and "callback (timers s ! t) = CheckInterval cl"
    and "active (timers s ! t)"
    and "\<forall>u < length (timers s). u \<noteq> t \<longrightarrow> closure_of (callback (timers s ! u)) = cl \<longrightarrow>
           \<not> active (timers s ! u)"
    and "\<not> phaseB_started cl s"
    and "GGBApplet s = Some lib" and "lib = CtorThrows m \<or> lib = InjectThrows m"
    and "promise cl < length (promises s)" and "promises s ! promise cl = Pending"
    and "\<not> load_fired loc cl es (step loc (Fire t) s)"
  shows "promises (run loc es (step loc (Fire t) s)) ! promise cl = Rejected (InitializationFailed m) \<and>
         stopped cl (run loc es (step loc (Fire t) s)) \<and>
         \<not> phaseB_started cl (run loc es (step loc (Fire t) s))"
proof -
  let ?s1 = "step loc (Fire t) s"
  have tm: "timers ?s1 = (timers s)[t := (timers s ! t)\<lparr>active := False\<rparr>]"
    and pr: "promises ?s1 = (promises s)[promise cl := Rejected (InitializationFailed m)]"
    using assms(1-3,6-9)
    by (auto simp: fire_def checkInterval_cb_def reject_def settle_def prim_defs Let_def)
  have st: "stopped cl ?s1"
    unfolding stopped_def list_ex_length tm using assms(1,4)
    by (auto simp: nth_list_update)
  have nb: "\<not> phaseB_started cl ?s1"
    using assms(1,5) tm phaseB_update by blast
  have "promise cl < length (promises ?s1)" "promises ?s1 ! promise cl \<noteq> Pending"
    using pr assms(8) by simp_all
  then have "promises (run loc es ?s1) ! promise cl = promises ?s1 ! promise cl"
    using run_settled by blast
  then show ?thesis
    using run_stopped [OF assms(10) st nb] pr assms(8) by simp
qed

theorem init_failure_witness:
  "promises (run devloc [SetLibrary (Some Working), Fire 0, ScriptLoad 0, SetGlobal ''box_applet'' (JObj 7)]
      (step devloc (Fire 0) (page1\<lparr>GGBApplet := Some (InjectThrows ''boom'')\<rparr>))) ! 0
     = Rejected (InitializationFailed ''boom'') \<and>
   stopped call1 (run devloc [SetLibrary (Some Working), Fire 0, ScriptLoad 0, SetGlobal ''box_applet'' (JObj 7)]
      (step devloc (Fire 0) (page1\<lparr>GGBApplet := Some (InjectThrows ''boom'')\<rparr>))) \<and>
   \<not> phaseB_started call1 (run devloc [SetLibrary (Some Working), Fire 0, ScriptLoad 0, SetGlobal ''box_applet'' (JObj 7)]
      (step devloc (Fire 0) (page1\<lparr>GGBApplet := Some (InjectThrows ''boom'')\<rparr>)))"
proof -
  let ?s = "page1\<lparr>GGBApplet := Some (InjectThrows ''boom'')\<rparr>"
  have h: "0 < length (timers ?s)" "callback (timers ?s ! 0) = CheckInterval call1"
    "active (timers ?s ! 0)"
    "\<forall>u < length (timers ?s). u \<noteq> 0 \<longrightarrow> closure_of (callback (timers ?s ! u)) = call1 \<longrightarrow>
           \<not> active (timers ?s ! u)"
    "\<not> phaseB_started call1 ?s"
    "GGBApplet ?s = Some (InjectThrows ''boom'')"
    "promise call1 < length (promises ?s)" "promises ?s ! promise call1 = Pending"
    by (simp_all add: page1_eq phaseB_started_def) (simp_all add: call1_def)
  have e: "\<not> load_fired devloc call1
             [SetLibrary (Some Working), Fire 0, ScriptLoad 0, SetGlobal ''box_applet'' (JObj 7)]
             (step devloc (Fire 0) ?s)"
    by (simp add: page1_eq fire_def checkInterval_cb_def reject_def settle_def prim_defs
        Let_def blank_def)
  have p: "promise call1 = 0" by (simp add: call1_def)
  show ?thesis
    using init_failure [OF h(1-6) _ h(7,8) e, where m="''boom''"] p by simp
qed

section \<open>One script element per key\<close>

text \<open>
  C4, as the code has it. Take a page whose elements are allocated objects and on which at
  most one element carries the script id of the key \<open>b\<close>, and let every text that is written
  into a mount point be plain: the file names of the calls, the file names held by the error
  handlers already on the page, the file names and material ids of the calls among the
  events. Then the content written adds no element, the flat document is the document of the
  page, and after any such events, calls of the loader with any key included, at most one
  element carries that id. After two calls with the key \<open>b\<close> that reach the removal and
  insertion of the script (both checks passed), with any such events in between, exactly one
  element carries the id, as after the first call and at every moment between the two: it is
  the script element that the second call created, the earlier one having been removed.
\<close>

theorem one_script_per_key:
  assumes "allocated s" and "count_id (scriptId b) s \<le> 1"
    and "plain_page s" and "list_all plain_event es" and "plain_text f" and "plain_text f'"
  shows "count_id (scriptId b) (run loc es s) \<le> 1 \<and>
         (getElementById s cid = Some c \<and> endsWith f ''.ggb'' \<and>
          getElementById (run loc es (snd (loadGeoGebra loc cid (Some f) b s))) cid' = Some c' \<and>
          endsWith f' ''.ggb'' \<longrightarrow>
            count_id (scriptId b) (snd (loadGeoGebra loc cid (Some f) b s)) = 1 \<and>
            count_id (scriptId b) (run loc es (snd (loadGeoGebra loc cid (Some f) b s))) = 1 \<and>
            count_id (scriptId b)
              (snd (loadGeoGebra loc cid' (Some f') b
                      (run loc es (snd (loadGeoGebra loc cid (Some f) b s))))) = 1 \<and>
            elements_with_id (scriptId b)
              (snd (loadGeoGebra loc cid' (Some f') b
                      (run loc es (snd (loadGeoGebra loc cid (Some f) b s)))))
              = [nextAddr (run loc es (snd (loadGeoGebra loc cid (Some f) b s)))] \<and>
            tagName (elems (snd (loadGeoGebra loc cid' (Some f') b
                      (run loc es (snd (loadGeoGebra loc cid (Some f) b s)))))
                      (nextAddr (run loc es (snd (loadGeoGebra loc cid (Some f) b s)))))
              = ''script'')"
proof (intro conjI impI)
  show "count_id (scriptId b) (run loc es s) \<le> 1"
    using run_count [OF assms(1,2)] by simp
next
  let ?s1 = "snd (loadGeoGebra loc cid (Some f) b s)"
  let ?s2 = "run loc es ?s1"
  assume h: "getElementById s cid = Some c \<and> endsWith f ''.ggb'' \<and>
          getElementById ?s2 cid' = Some c' \<and> endsWith f' ''.ggb''"
  then have v: "getElementById s cid = Some c" "endsWith f ''.ggb''"
    and v': "getElementById ?s2 cid' = Some c'" "endsWith f' ''.ggb''"
    by simp_all
  note k = loadGeoGebra_count [OF v assms(1), where loc=loc and b=b]
  show one: "count_id (scriptId b) ?s1 = 1"
    using k(3) assms(2) by simp
  then have le: "count_id (scriptId b) ?s1 \<le> 1" by simp
  note r = run_count [OF k(1) le, where loc=loc and es=es]
  show "count_id (scriptId b) ?s2 = 1"
    using r one by simp
  then have le2: "count_id (scriptId b) ?s2 \<le> 1" by simp
  from r have al: "allocated ?s2" by simp
  show "count_id (scriptId b) (snd (loadGeoGebra loc cid' (Some f') b ?s2)) = 1"
    using loadGeoGebra_count(3) [OF v' al, where loc=loc and b=b] le2 by simp
  show "elements_with_id (scriptId b) (snd (loadGeoGebra loc cid' (Some f') b ?s2))
          = [nextAddr ?s2]"
    using v' al le2 by (rule loadGeoGebra_only)
  show "tagName (elems (snd (loadGeoGebra loc cid' (Some f') b ?s2)) (nextAddr ?s2)) = ''script''"
    by (simp add: loadGeoGebra_valid(8) [OF v'])
qed

theorem one_script_per_key_witness:
  "allocated page0 \<and> count_id (scriptId False) page0 \<le> 1 \<and> plain_page page0 \<and>
   plain_text ''a.ggb'' \<and> plain_text ''b.ggb'' \<and>
   list_all plain_event [CallLoad ''box'' (Some ''a.ggb'') False, ScriptLoad 1,
                         CallEmbed ''box'' (JStr ''m7'') 800 500 True,
                         CallLoad ''box'' (Some ''b.ggb'') False] \<and>
   count_id (scriptId False)
     (run devloc [CallLoad ''box'' (Some ''a.ggb'') False, ScriptLoad 1,
                  CallEmbed ''box'' (JStr ''m7'') 800 500 True,
                  CallLoad ''box'' (Some ''b.ggb'') False] page0) \<le> 1 \<and>
   count_id (scriptId False)
     (snd (loadGeoGebra devloc ''box'' (Some ''b.ggb'') False
        (run devloc [ScriptLoad 1, Fire 0]
           (snd (loadGeoGebra devloc ''box'' (Some ''a.ggb'') False page0))))) = 1 \<and>
   elements_with_id (scriptId False)
     (snd (loadGeoGebra devloc ''box'' (Some ''b.ggb'') False
        (run devloc [ScriptLoad 1, Fire 0]
           (snd (loadGeoGebra devloc ''box'' (Some ''a.ggb'') False page0))))) = [2]"
proof -
  have a: "allocated page0" and c: "count_id (scriptId False) page0 \<le> 1"
    by (simp_all add: allocated_def count_id_def elements_with_id_def page0_def blank_def scriptId_def)
  have pp: "plain_page page0"
    by (simp add: plain_page_def page0_def blank_def)
  have pa: "plain_text ''a.ggb''" and pb: "plain_text ''b.ggb''"
    by (simp_all add: plain_text_def)
  have e1: "list_all plain_event [CallLoad ''box'' (Some ''a.ggb'') False, ScriptLoad 1,
              CallEmbed ''box'' (JStr ''m7'') 800 500 True, CallLoad ''box'' (Some ''b.ggb'') False]"
    and e2: "list_all plain_event [ScriptLoad 1, Fire 0]"
    by (simp_all add: plain_text_def plain_attr_def)
  have g: "endsWith ''b.ggb'' ''.ggb''" by (simp add: endsWith_def)
  have m: "getElementById (run devloc [ScriptLoad 1, Fire 0]
             (snd (loadGeoGebra devloc ''box'' (Some ''a.ggb'') False page0))) ''box'' = Some 0"
    and n: "nextAddr (run devloc [ScriptLoad 1, Fire 0]
             (snd (loadGeoGebra devloc ''box'' (Some ''a.ggb'') False page0))) = 2"
    by (simp_all add: eval_defs)
  show ?thesis
    using a c pp pa pb e1 g m n page0_box ggb_ok
      one_script_per_key [OF a c pp e1 pa pb, where loc = devloc and cid = "''box''" and c = 0
        and cid' = "''box''" and c' = 0]
      one_script_per_key [OF a c pp e2 pa pb, where loc = devloc and cid = "''box''" and c = 0
        and cid' = "''box''" and c' = 0]
    by simp
qed

text \<open>
  The claim as stated has no condition on the page. On the page with two elements of the
  id, which meets every other hypothesis, the loader removes the first of them, the script in
  the head, and appends its own: after two calls that pass both checks two script elements
  carry the id, the one in the body and the script of the second call.
\<close>

theorem duplicate_id_counterexample:
  "allocated page_dup \<and> plain_page page_dup \<and> count_id (scriptId False) page_dup = 2 \<and>
   count_id (scriptId False)
     (run devloc [CallLoad ''box'' (Some ''a.ggb'') False,
                  CallLoad ''box'' (Some ''b.ggb'') False] page_dup) = 2 \<and>
   elements_with_id (scriptId False)
     (run devloc [CallLoad ''box'' (Some ''a.ggb'') False,
                  CallLoad ''box'' (Some ''b.ggb'') False] page_dup) = [4, 2] \<and>
   tagName (elems (run devloc [CallLoad ''box'' (Some ''a.ggb'') False,
                  CallLoad ''box'' (Some ''b.ggb'') False] page_dup) 4) = ''script'' \<and>
   tagName (elems (run devloc [CallLoad ''box'' (Some ''a.ggb'') False,
                  CallLoad ''box'' (Some ''b.ggb'') False] page_dup) 2) = ''script''"
  by (simp add: eval_defs page_dup_def count_id_def elements_with_id_def allocated_def
      plain_page_def less_Suc_eq numeral_3_eq_3)

section \<open>The order of the two polling phases\<close>

text \<open>
  C2, as the code has it. In the mock scheduler the library is there for the \<open>N\<close>-th tick of
  the first interval and not before, the instance for the \<open>M\<close>-th tick of the second interval
  and not before, with \<open>N\<close> and \<open>M\<close> at least one. After a call that passes both checks, the
  schedule has \<open>N + M\<close> ticks and ends with one; after it the promise is resolved with the
  instance, and after every shorter prefix of it the promise is pending.

  The order, for any events from any state: a second interval of a call that did not exist
  before the events exists after them only if, during them, a tick of the call's first
  interval found the library; a first interval of a call exists after them only if the load
  handler of the call ran during them; and a tick of the first interval can only find the
  library after the load handler ran.
\<close>

theorem polling_order:
  "(getElementById s cid = Some c \<and> endsWith f ''.ggb'' \<and> GGBApplet s = None \<and>
    (\<forall>v. window s (cid @ ''_applet'') = Some v \<longrightarrow> \<not> truthy v) \<and> truthy inst \<and>
    1 \<le> N \<and> 1 \<le> M \<longrightarrow>
      ticks (mock_schedule (nextAddr s) (length (timers s)) (cid @ ''_applet'') inst N M) = N + M \<and>
      is_Fire (last (mock_schedule (nextAddr s) (length (timers s)) (cid @ ''_applet'') inst N M)) \<and>
      promises (run loc (mock_schedule (nextAddr s) (length (timers s)) (cid @ ''_applet'') inst N M)
                  (snd (loadGeoGebra loc cid (Some f) b s))) ! length (promises s) = Resolved inst \<and>
      (\<forall>k < length (mock_schedule (nextAddr s) (length (timers s)) (cid @ ''_applet'') inst N M).
         promises (run loc
                    (take k (mock_schedule (nextAddr s) (length (timers s)) (cid @ ''_applet'') inst N M))
                    (snd (loadGeoGebra loc cid (Some f) b s))) ! length (promises s) = Pending)) \<and>
   (\<not> phaseB_started cl s' \<and> phaseB_started cl (run loc es s') \<longrightarrow> phaseA_succeeded loc cl es s') \<and>
   (\<not> phaseA_started cl s' \<and> phaseA_started cl (run loc es s') \<longrightarrow> load_fired loc cl es s') \<and>
   (\<not> phaseA_started cl s' \<and> phaseA_succeeded loc cl es s' \<longrightarrow> load_fired loc cl es s')"
proof (intro conjI impI allI)
  let ?sched = "mock_schedule (nextAddr s) (length (timers s)) (cid @ ''_applet'') inst N M"
  let ?s0 = "snd (loadGeoGebra loc cid (Some f) b s)"
  let ?pre = "ScriptLoad (nextAddr s) # replicate (N - 1) (Fire (length (timers s)))
                 @ [SetLibrary (Some Working), Fire (length (timers s))]
                 @ replicate (M - 1) (Fire (Suc (length (timers s))))
                 @ [SetGlobal (cid @ ''_applet'') inst]"
  assume h: "getElementById s cid = Some c \<and> endsWith f ''.ggb'' \<and> GGBApplet s = None \<and>
    (\<forall>v. window s (cid @ ''_applet'') = Some v \<longrightarrow> \<not> truthy v) \<and> truthy inst \<and> 1 \<le> N \<and> 1 \<le> M"
  have sp: "?sched = ?pre @ [Fire (Suc (length (timers s)))]"
    by (simp add: mock_schedule_def)
  have m: "promises (run loc ?pre ?s0) ! length (promises s) = Pending"
    "promises (run loc (?pre @ [Fire (Suc (length (timers s)))]) ?s0) ! length (promises s)
       = Resolved inst"
    using h mock_resolves [where s=s and cid=cid and c=c and f=f and inst=inst and loc=loc
        and b=b and N=N and M=M]
    by simp_all
  show "ticks ?sched = N + M"
    using h by (simp add: ticks_def mock_schedule_def)
  show "is_Fire (last ?sched)"
    by (simp add: sp)
  show "promises (run loc ?sched ?s0) ! length (promises s) = Resolved inst"
    using m(2) by (simp only: sp)
  fix k
  assume k: "k < length ?sched"
  then have tk: "take k ?sched = take k ?pre"
    unfolding sp by (rule take_snoc_less)
  have "length (promises s) < length (promises ?s0)"
    using loadGeoGebra_promises [of loc cid "Some f" b s] by auto
  then show "promises (run loc (take k ?sched) ?s0) ! length (promises s) = Pending"
    unfolding tk using m(1) by (intro pending_prefix) simp_all
next
  assume "\<not> phaseB_started cl s' \<and> phaseB_started cl (run loc es s')"
  then show "phaseA_succeeded loc cl es s'" using order_B by blast
next
  assume "\<not> phaseA_started cl s' \<and> phaseA_started cl (run loc es s')"
  then show "load_fired loc cl es s'" using order_A by blast
next
  assume "\<not> phaseA_started cl s' \<and> phaseA_succeeded loc cl es s'"
  then show "load_fired loc cl es s'" using succeeded_after_load by blast
qed

text \<open>The schedule with \<open>N = 2\<close> and \<open>M = 3\<close> on the concrete page, and the page after the call.\<close>

lemma sched_eq:
  "mock_schedule 1 0 ''box_applet'' (JObj 7) 2 3 =
     [ScriptLoad 1, Fire 0, SetLibrary (Some Working), Fire 0, Fire 1, Fire 1,
      SetGlobal ''box_applet'' (JObj 7), Fire 1]"
  by (simp add: mock_schedule_def numeral_3_eq_3)

lemma page0_call:
  "snd (loadGeoGebra devloc ''box'' (Some ''a.ggb'') False page0) =
     \<lparr>elems = (\<lambda>_. blank)
              (0 := blank\<lparr>tagName := ''div'', eid := ''box'', innerHTML := LoadingPanel ''a.ggb''\<rparr>,
               1 := \<lparr>tagName = ''script'', eid = ''geogebra-script'',
                     src = ''https://www.geogebra.org/apps/latest/web.nocache.js'',
                     innerHTML = Other [], onload = Some call1, onerror = Some call1\<rparr>),
            nextAddr = 2, headc = [1], bodyc = [0], window = Map.empty, GGBApplet = None,
            timers = [], promises = [Pending], console = [], constructed = [], injected = []\<rparr>"
  by (simp add: call1_def eval_defs fun_upd_twist)

theorem polling_order_witness:
  "ticks (mock_schedule 1 0 ''box_applet'' (JObj 7) 2 3) = 2 + 3 \<and>
   promises (run devloc (mock_schedule 1 0 ''box_applet'' (JObj 7) 2 3)
               (snd (loadGeoGebra devloc ''box'' (Some ''a.ggb'') False page0))) ! 0
     = Resolved (JObj 7) \<and>
   promises (run devloc (take 7 (mock_schedule 1 0 ''box_applet'' (JObj 7) 2 3))
               (snd (loadGeoGebra devloc ''box'' (Some ''a.ggb'') False page0))) ! 0 = Pending \<and>
   phaseA_succeeded devloc call1 (mock_schedule 1 0 ''box_applet'' (JObj 7) 2 3)
     (snd (loadGeoGebra devloc ''box'' (Some ''a.ggb'') False page0)) \<and>
   load_fired devloc call1 (mock_schedule 1 0 ''box_applet'' (JObj 7) 2 3)
     (snd (loadGeoGebra devloc ''box'' (Some ''a.ggb'') False page0))"
proof -
  let ?s0 = "snd (loadGeoGebra devloc ''box'' (Some ''a.ggb'') False page0)"
  let ?sched = "mock_schedule 1 0 ''box_applet'' (JObj 7) 2 3"
  have p: "nextAddr page0 = 1" "length (timers page0) = 0" "length (promises page0) = 0"
    "GGBApplet page0 = None" "\<forall>v. window page0 (''box'' @ ''_applet'') = Some v \<longrightarrow> \<not> truthy v"
    by (simp_all add: page0_def)
  have nb: "\<not> phaseB_started call1 ?s0" and na: "\<not> phaseA_started call1 ?s0"
    by (simp_all add: page0_call phaseB_started_def phaseA_started_def)
  have b: "phaseB_started call1 (run devloc ?sched ?s0)"
    and a: "phaseA_started call1 (run devloc ?sched ?s0)"
    unfolding sched_eq page0_call
    by (simp_all add: phaseB_started_def phaseA_started_def
        script_onload_def fire_def checkInterval_cb_def onLoaded_cb_def resolve_def settle_def
        prim_defs Let_def call1_def)
  note po = polling_order [of page0 "''box''" 0 "''a.ggb''" "JObj 7" 2 3 devloc False call1 ?s0 ?sched]
  have l: "(7::nat) < length ?sched" unfolding sched_eq by simp
  have t: "truthy (JObj 7)" "(1::nat) \<le> 2" "(1::nat) \<le> 3" by simp_all
  from po p page0_box ggb_ok nb na a b l t show ?thesis
    by simp
qed

text \<open>
  The claim as stated covers \<open>N = 0\<close> and \<open>M = 0\<close>: the library and the instance are there
  before the first tick, and the promise would be resolved on tick \<open>0\<close>. Each phase takes a
  tick of its own: the promise is pending after the load event and after the first tick, and
  resolved by the second.
\<close>

theorem globals_present_counterexample:
  "promises (run devloc [SetLibrary (Some Working), SetGlobal ''box_applet'' (JObj 7), ScriptLoad 1]
      (snd (loadGeoGebra devloc ''box'' (Some ''a.ggb'') False page0))) ! 0 = Pending \<and>
   promises (run devloc [SetLibrary (Some Working), SetGlobal ''box_applet'' (JObj 7), ScriptLoad 1,
                         Fire 0]
      (snd (loadGeoGebra devloc ''box'' (Some ''a.ggb'') False page0))) ! 0 = Pending \<and>
   promises (run devloc [SetLibrary (Some Working), SetGlobal ''box_applet'' (JObj 7), ScriptLoad 1,
                         Fire 0, Fire 1]
      (snd (loadGeoGebra devloc ''box'' (Some ''a.ggb'') False page0))) ! 0 = Resolved (JObj 7)"
  by (simp add: eval_defs)

end
